theory Spec2Isabelle
  imports Complex_Main "HOL-Library.Sublist" "HOL-Library.Multiset"
begin

section \<open>Values of the Python runtime\<close>

text \<open>
  The scraper is one Python module, \<^verbatim>\<open>imdb_scraper.py\<close>. Its functions work on
  strings, on the loosely typed tree that \<^verbatim>\<open>json.loads\<close> returns, and on floats.

  A Python \<^verbatim>\<open>str\<close> is modelled as a HOL \<open>string\<close>: a list of code points below 256.
  On these the regular-expression class \<^verbatim>\<open>\d\<close> is exactly \<^verbatim>\<open>0-9\<close>.

  A Python \<^verbatim>\<open>float\<close> is a finite number, an infinity or NaN. Every finite double is a
  rational, and comparisons between floats and integers are exact in Python, so the order on
  finite values is the order of the rationals; NaN compares false with everything.
\<close>

datatype pyfloat = Finite rat | PInf | NInf | NaN

text \<open>
  The exceptions the module can meet. \<^verbatim>\<open>JSONDecodeError\<close> is the one \<^verbatim>\<open>json.loads\<close> raises
  on ill-formed text; \<open>OtherError\<close> stands for whatever else a collaborator raises (a failed
  HTTP request, say).
\<close>

datatype py_error =
    ValueError
  | TypeError
  | AttributeError
  | OverflowError
  | KeyError
  | JSONDecodeError
  | MemoryError
  | OtherError string

text \<open>Sequencing of computations that may raise: the first exception ends the run.\<close>

definition and_then :: "py_error + 'a \<Rightarrow> ('a \<Rightarrow> py_error + 'b) \<Rightarrow> py_error + 'b" where
  "and_then m f = (case m of Inl e \<Rightarrow> Inl e | Inr x \<Rightarrow> f x)"

text \<open>\<^verbatim>\<open>f < n\<close> for a float \<open>f\<close> and an integer literal \<open>n\<close>.\<close>

fun float_lt_int :: "pyfloat \<Rightarrow> int \<Rightarrow> bool" where
  "float_lt_int (Finite r) n = (r < of_int n)"
| "float_lt_int PInf n = False"
| "float_lt_int NInf n = True"
| "float_lt_int NaN n = False"

text \<open>\<^verbatim>\<open>a < b\<close> on two floats.\<close>

fun float_lt :: "pyfloat \<Rightarrow> pyfloat \<Rightarrow> bool" where
  "float_lt (Finite a) (Finite b) = (a < b)"
| "float_lt (Finite a) PInf = True"
| "float_lt NInf (Finite b) = True"
| "float_lt NInf PInf = True"
| "float_lt a b = False"

text \<open>
  The value \<^verbatim>\<open>json.loads\<close> returns: \<^verbatim>\<open>None\<close>, a bool, an int of any size, a float, a
  string, a list or a dict. A dict is an association list read from the left (\<open>map_of\<close>).
  \<open>JNull\<close> is Python's \<^verbatim>\<open>None\<close> wherever it appears.
\<close>

datatype json =
    JNull
  | JBool bool
  | JInt int
  | JFloat pyfloat
  | JStr string
  | JList "json list"
  | JObj "(string \<times> json) list"

text \<open>Truth value of an object, as \<^verbatim>\<open>if x:\<close> tests it.\<close>

fun truthy :: "json \<Rightarrow> bool" where
  "truthy JNull = False"
| "truthy (JBool b) = b"
| "truthy (JInt i) = (i \<noteq> 0)"
| "truthy (JFloat f) = (f \<noteq> Finite 0)"
| "truthy (JStr s) = (s \<noteq> [])"
| "truthy (JList xs) = (xs \<noteq> [])"
| "truthy (JObj kvs) = (kvs \<noteq> [])"

text \<open>\<^verbatim>\<open>x.get(key, default)\<close>: only a dict has the method.\<close>

fun dict_get :: "json \<Rightarrow> string \<Rightarrow> json \<Rightarrow> py_error + json" where
  "dict_get (JObj kvs) key dflt = Inr (case map_of kvs key of Some v \<Rightarrow> v | None \<Rightarrow> dflt)"
| "dict_get x key dflt = Inl AttributeError"

text \<open>\<^verbatim>\<open>key in x\<close> for a string \<open>key\<close>.\<close>

fun py_in :: "string \<Rightarrow> json \<Rightarrow> py_error + bool" where
  "py_in key (JObj kvs) = Inr (map_of kvs key \<noteq> None)"
| "py_in key (JList xs) = Inr (JStr key \<in> set xs)"
| "py_in key (JStr s) = Inr (sublist key s)"
| "py_in key x = Inl TypeError"

text \<open>\<^verbatim>\<open>x[key]\<close> for a string \<open>key\<close>.\<close>

fun py_getitem :: "json \<Rightarrow> string \<Rightarrow> py_error + json" where
  "py_getitem (JObj kvs) key = (case map_of kvs key of Some v \<Rightarrow> Inr v | None \<Rightarrow> Inl KeyError)"
| "py_getitem x key = Inl TypeError"

text \<open>
  \<^verbatim>\<open>float(n)\<close> for an int: the nearest double, ties to even, and \<^verbatim>\<open>OverflowError\<close> when
  that would be \<open>2 ^ 1024\<close> or more, which is from \<open>2 ^ 1024 - 2 ^ 970\<close> on.
\<close>

fun bit_length :: "nat \<Rightarrow> nat" where
  "bit_length n = (if n = 0 then 0 else Suc (bit_length (n div 2)))"

declare bit_length.simps [simp del]

definition round_to_53_bits :: "int \<Rightarrow> int" where
  "round_to_53_bits i =
     (let a = \<bar>i\<bar>; e = bit_length (nat a) - 53
      in if e = 0 then i
         else let q = a div 2 ^ e; r = a mod 2 ^ e; h = 2 ^ (e - 1);
                  q' = (if h < r \<or> (r = h \<and> odd q) then q + 1 else q)
              in sgn i * q' * 2 ^ e)"

definition float_of_int :: "int \<Rightarrow> py_error + pyfloat" where
  "float_of_int i =
     (if 2 ^ 1024 - 2 ^ 970 \<le> \<bar>i\<bar> then Inl OverflowError
      else Inr (Finite (of_int (round_to_53_bits i))))"

section \<open>Double arithmetic\<close>

text \<open>
  A float of Python is an IEEE 754 binary64 number, and \<^verbatim>\<open>+\<close>, \<^verbatim>\<open>/\<close> and \<^verbatim>\<open>float\<close> give the
  double nearest to the exact result, a tie going to the even significand. \<open>pow2 e\<close> is
  \<open>2\<close> to the power \<open>e\<close>, and \<open>binade x\<close> the exponent \<open>e\<close> with \<open>2^e \<le> |x| < 2^(e+1)\<close>. The
  doubles around \<open>x\<close> are the multiples of \<open>2^(e-52)\<close>, of \<open>2^(-1074)\<close> below the normal
  range; a result of magnitude \<open>2^1024\<close> or more is an infinity.
\<close>

definition round_half_even :: "rat \<Rightarrow> int" where
  "round_half_even x =
     (let f = \<lfloor>x\<rfloor>; d = x - of_int f
      in if d < 1 / 2 then f
         else if 1 / 2 < d then f + 1
         else if even f then f else f + 1)"

definition pow2 :: "int \<Rightarrow> rat" where
  "pow2 e = (if 0 \<le> e then 2 ^ nat e else 1 / 2 ^ nat (- e))"

definition binade :: "rat \<Rightarrow> int" where
  "binade x =
     (if 1 \<le> \<bar>x\<bar> then int (bit_length (nat \<lfloor>\<bar>x\<bar>\<rfloor>)) - 1
      else - int (bit_length (nat (\<lceil>1 / \<bar>x\<bar>\<rceil> - 1))))"

definition round_double :: "rat \<Rightarrow> pyfloat" where
  "round_double x =
     (if x = 0 then Finite 0
      else let u = pow2 (max (binade x) (- 1022) - 52);
               y = of_int (round_half_even (x / u)) * u
           in if pow2 1024 \<le> \<bar>y\<bar> then (if 0 < x then PInf else NInf) else Finite y)"

text \<open>\<^verbatim>\<open>a + b\<close> on two floats.\<close>

fun double_add :: "pyfloat \<Rightarrow> pyfloat \<Rightarrow> pyfloat" where
  "double_add (Finite a) (Finite b) = round_double (a + b)"
| "double_add NaN y = NaN"
| "double_add x NaN = NaN"
| "double_add PInf NInf = NaN"
| "double_add NInf PInf = NaN"
| "double_add PInf y = PInf"
| "double_add NInf y = NInf"
| "double_add x PInf = PInf"
| "double_add x NInf = NInf"

text \<open>
  \<^verbatim>\<open>sum(xs)\<close> on a list of floats, as CPython evaluates it up to version 3.11: from the
  integer 0, one addition after the other from the left. (From 3.12 on \<^verbatim>\<open>sum\<close> carries a
  compensation term for the rounding errors of these additions.)
\<close>

definition double_sum :: "pyfloat list \<Rightarrow> pyfloat" where
  "double_sum xs = foldl double_add (Finite 0) xs"

text \<open>
  \<^verbatim>\<open>x / n\<close> for a float \<open>x\<close> and the length \<open>n\<close> of a list, which is converted to a float
  first. The module divides by the length of a non-empty list only; for \<open>n = 0\<close>, where
  Python raises, the value here is NaN.
\<close>

fun double_div_int :: "pyfloat \<Rightarrow> nat \<Rightarrow> pyfloat" where
  "double_div_int (Finite a) n =
     (if n = 0 then NaN else round_double (a / of_int (round_to_53_bits (int n))))"
| "double_div_int x n = x"

text \<open>
  \<^verbatim>\<open>round(x, 2)\<close>: the number with two decimals nearest to the exact value of the double
  \<open>x\<close>, a tie going to the even last digit, and of that number the nearest double.
\<close>

fun double_round2 :: "pyfloat \<Rightarrow> pyfloat" where
  "double_round2 (Finite a) = round_double (of_int (round_half_even (a * 100)) / 100)"
| "double_round2 x = x"

section \<open>Collaborators\<close>

text \<open>
  A parsed document or one of its elements, as BeautifulSoup presents it, is the answers it
  gives to the queries the module makes:
  \<^item> \<open>el_ld_script\<close>: \<^verbatim>\<open>soup.find("script", type="application/ld+json")\<close>, \<open>None\<close> when there
    is no such tag, else the tag's \<^verbatim>\<open>.string\<close> (itself \<^verbatim>\<open>None\<close> or a string);
  \<^item> \<open>el_select\<close>: for a CSS selector, the elements \<^verbatim>\<open>select\<close> returns, in document order
    (no entry: no match);
  \<^item> \<open>el_text\<close> and \<open>el_text_strip\<close>: \<^verbatim>\<open>get_text()\<close> and \<^verbatim>\<open>get_text(strip=True)\<close>;
  \<^item> \<open>el_attrs\<close>: the attributes.
  Every real document is such a value, so a property of all values holds of all documents.
\<close>

datatype element =
  Element (el_ld_script: "string option option")
          (el_select: "(string \<times> element list) list")
          (el_text: string)
          (el_text_strip: string)
          (el_attrs: "(string \<times> string) list")

definition select :: "element \<Rightarrow> string \<Rightarrow> element list" where
  "select e sel = (case map_of (el_select e) sel of Some es \<Rightarrow> es | None \<Rightarrow> [])"

definition select_one :: "element \<Rightarrow> string \<Rightarrow> element option" where
  "select_one e sel = (case select e sel of [] \<Rightarrow> None | x # xs \<Rightarrow> Some x)"

text \<open>\<^verbatim>\<open>a or b\<close> on two results of \<^verbatim>\<open>select_one\<close>: a tag is always true, \<^verbatim>\<open>None\<close> is false.\<close>

definition orelse :: "'a option \<Rightarrow> 'a option \<Rightarrow> 'a option" where
  "orelse a b = (case a of Some x \<Rightarrow> Some x | None \<Rightarrow> b)"

text \<open>
  What the module takes from outside itself, as parameters of the model:
  \<^item> \<open>fetch\<close>: \<^verbatim>\<open>requests.get\<close>, \<^verbatim>\<open>raise_for_status\<close> and the parse by BeautifulSoup;
  \<^item> \<open>json_loads\<close>: \<^verbatim>\<open>json.loads\<close>;
  \<^item> \<open>float_of_str\<close>, \<open>int_of_str\<close>: \<^verbatim>\<open>float(s)\<close> and \<^verbatim>\<open>int(s)\<close> on a string, \<open>None\<close> for
    \<^verbatim>\<open>ValueError\<close>; \<open>max_str_digits\<close>: the interpreter's limit on the digits of an integer
    string, 0 for no limit;
  \<^item> \<open>maxsize\<close>, \<open>max_list_len\<close>: \<^verbatim>\<open>sys.maxsize\<close> and the length of the longest list
    that fits in memory;
  \<^item> \<open>format_value\<close>: the text an f-string puts for a value;
  \<^item> \<open>re_title\<close>: group 1 of the first match of the episode-prefix pattern of
    \<^verbatim>\<open>_get_episode_ratings_css_fallback\<close> in a title text, whose bullet U+2219 is no
    character of a HOL string;
  \<^item> \<open>float_sum\<close>, \<open>float_div_int\<close>, \<open>round2\<close>: \<^verbatim>\<open>sum(xs)\<close>, \<^verbatim>\<open>x / n\<close> and \<^verbatim>\<open>round(x, 2)\<close> in
    IEEE 754 double arithmetic.
\<close>

record runtime =
  fetch :: "string \<Rightarrow> py_error + element"
  json_loads :: "string \<Rightarrow> py_error + json"
  float_of_str :: "string \<Rightarrow> pyfloat option"
  int_of_str :: "string \<Rightarrow> int option"
  max_str_digits :: nat
  maxsize :: nat
  max_list_len :: nat
  format_value :: "json \<Rightarrow> string"
  re_title :: "string \<Rightarrow> string option"
  float_sum :: "pyfloat list \<Rightarrow> pyfloat"
  float_div_int :: "pyfloat \<Rightarrow> nat \<Rightarrow> pyfloat"
  round2 :: "pyfloat \<Rightarrow> pyfloat"

section \<open>Rating Colorizer\<close>

text \<open>
  \<^verbatim>\<open>get_rating_color(rating: float | None) -> str\<close>: an if/elif chain over the
  thresholds 4 to 9, after the test for \<^verbatim>\<open>None\<close>.
\<close>

definition get_rating_color :: "pyfloat option \<Rightarrow> string" where
  "get_rating_color rating =
     (case rating of
        None \<Rightarrow> ''#3d3d3d''
      | Some r \<Rightarrow>
          if float_lt_int r 4 then ''#da3633''
          else if float_lt_int r 5 then ''#f85149''
          else if float_lt_int r 6 then ''#d29922''
          else if float_lt_int r 7 then ''#e3b341''
          else if float_lt_int r 8 then ''#7ee787''
          else if float_lt_int r 9 then ''#3fb950''
          else ''#238636'')"

section \<open>Identifier Resolver\<close>

definition is_digit :: "char \<Rightarrow> bool" where
  "is_digit c = (c \<in> set ''0123456789'')"

text \<open>
  The patterns \<^verbatim>\<open>tt\d+\<close>, \<^verbatim>\<open>season=(\d+)\<close> and \<^verbatim>\<open>E(\d+)\<close> are a literal followed by a
  greedy, non-empty run of digits. \<open>match_here lit s\<close> is the match anchored at the start
  of \<open>s\<close> (the digits, group 1 where the pattern has one); \<open>re_search lit s\<close> tries every
  start position from the left, as \<^verbatim>\<open>re.search\<close> does.
\<close>

definition match_here :: "string \<Rightarrow> string \<Rightarrow> string option" where
  "match_here lit s =
     (if prefix lit s \<and> takeWhile is_digit (drop (length lit) s) \<noteq> []
      then Some (takeWhile is_digit (drop (length lit) s)) else None)"

fun re_search :: "string \<Rightarrow> string \<Rightarrow> string option" where
  "re_search lit [] = match_here lit []"
| "re_search lit (c # cs) =
     (case match_here lit (c # cs) of
        Some ds \<Rightarrow> Some ds
      | None \<Rightarrow> re_search lit cs)"

text \<open>
  \<^verbatim>\<open>get_imdb_id(url)\<close>: \<^verbatim>\<open>re.search(r"tt\d+", url)\<close>, \<^verbatim>\<open>ValueError\<close> when there is no
  match, else \<^verbatim>\<open>match.group()\<close>, the whole match.
\<close>

definition get_imdb_id :: "string \<Rightarrow> py_error + string" where
  "get_imdb_id url =
     (case re_search ''tt'' url of
        None \<Rightarrow> Inl ValueError
      | Some ds \<Rightarrow> Inr (''tt'' @ ds))"

text \<open>
  The words of the specification: a string \<open>m\<close> has the shape of an identifier when it is
  \<^verbatim>\<open>tt\<close> followed by one or more digits, and it occurs in \<open>url\<close> at offset \<open>n\<close> when
  the \<open>length m\<close> characters of \<open>url\<close> from \<open>n\<close> on are \<open>m\<close>.
\<close>

definition is_imdb_id :: "string \<Rightarrow> bool" where
  "is_imdb_id m = (take 2 m = ''tt'' \<and> drop 2 m \<noteq> [] \<and> list_all is_digit (drop 2 m))"

definition occurs_at :: "string \<Rightarrow> string \<Rightarrow> nat \<Rightarrow> bool" where
  "occurs_at m url n = (n + length m \<le> length url \<and> take (length m) (drop n url) = m)"

definition contains_imdb_id :: "string \<Rightarrow> bool" where
  "contains_imdb_id url = (\<exists>n m. is_imdb_id m \<and> occurs_at m url n)"

section \<open>Conversions\<close>

text \<open>The number a string of decimal digits writes.\<close>

definition digit_value :: "char \<Rightarrow> int" where
  "digit_value c = of_char c - 48"

definition digits_value :: "string \<Rightarrow> int" where
  "digits_value ds = foldl (\<lambda>a c. 10 * a + digit_value c) 0 ds"

text \<open>
  \<^verbatim>\<open>int(s)\<close> on a string. On a non-empty run of digits it is the number written, unless the
  run is longer than the interpreter's limit; any other string is left to the runtime.
\<close>

definition py_int_str :: "runtime \<Rightarrow> string \<Rightarrow> py_error + int" where
  "py_int_str rt s =
     (if s \<noteq> [] \<and> list_all is_digit s
      then (if max_str_digits rt \<noteq> 0 \<and> max_str_digits rt < length s then Inl ValueError
            else Inr (digits_value s))
      else (case int_of_str rt s of None \<Rightarrow> Inl ValueError | Some i \<Rightarrow> Inr i))"

text \<open>\<^verbatim>\<open>int(x)\<close> on a value of the JSON tree; a float is truncated towards zero.\<close>

fun py_int :: "runtime \<Rightarrow> json \<Rightarrow> py_error + int" where
  "py_int rt JNull = Inl TypeError"
| "py_int rt (JBool b) = Inr (if b then 1 else 0)"
| "py_int rt (JInt i) = Inr i"
| "py_int rt (JFloat (Finite r)) = Inr (if 0 \<le> r then \<lfloor>r\<rfloor> else \<lceil>r\<rceil>)"
| "py_int rt (JFloat NaN) = Inl ValueError"
| "py_int rt (JFloat PInf) = Inl OverflowError"
| "py_int rt (JFloat NInf) = Inl OverflowError"
| "py_int rt (JStr s) = py_int_str rt s"
| "py_int rt (JList xs) = Inl TypeError"
| "py_int rt (JObj kvs) = Inl TypeError"

text \<open>\<^verbatim>\<open>float(x)\<close> on a value of the JSON tree.\<close>

fun py_float :: "runtime \<Rightarrow> json \<Rightarrow> py_error + pyfloat" where
  "py_float rt JNull = Inl TypeError"
| "py_float rt (JBool b) = Inr (Finite (if b then 1 else 0))"
| "py_float rt (JInt i) = float_of_int i"
| "py_float rt (JFloat f) = Inr f"
| "py_float rt (JStr s) = (case float_of_str rt s of None \<Rightarrow> Inl ValueError | Some f \<Rightarrow> Inr f)"
| "py_float rt (JList xs) = Inl TypeError"
| "py_float rt (JObj kvs) = Inl TypeError"

section \<open>Structured-Data Extractor\<close>

text \<open>
  \<^verbatim>\<open>extract_json_ld(soup)\<close>: the payload of the first JSON-LD script, \<^verbatim>\<open>None\<close> when there is
  no such script, when its string is \<^verbatim>\<open>None\<close> or empty, or when \<^verbatim>\<open>json.loads\<close> raises
  \<^verbatim>\<open>JSONDecodeError\<close>. No other exception is caught.
\<close>

definition extract_json_ld :: "runtime \<Rightarrow> element \<Rightarrow> py_error + json" where
  "extract_json_ld rt soup =
     (case el_ld_script soup of
        None \<Rightarrow> Inr JNull
      | Some None \<Rightarrow> Inr JNull
      | Some (Some s) \<Rightarrow>
          if s = [] then Inr JNull
          else (case json_loads rt s of
                  Inr v \<Rightarrow> Inr v
                | Inl JSONDecodeError \<Rightarrow> Inr JNull
                | Inl e \<Rightarrow> Inl e))"

section \<open>Show-Metadata Recoverer\<close>

record show_info =
  name :: json
  poster_url :: "string option"
  number_of_seasons :: json

text \<open>The heading the name falls back to: the hero title, else the first \<^verbatim>\<open>h1\<close>.\<close>

definition title_heading :: "element \<Rightarrow> element option" where
  \<open>title_heading soup =
     orelse (select_one soup ''h1[data-testid="hero__pageTitle"] span'') (select_one soup ''h1'')\<close>

text \<open>
  \<^verbatim>\<open>get_show_info(imdb_id)\<close>. The name starts as the sentinel; a true payload replaces it by
  \<^verbatim>\<open>json_ld.get("name", name)\<close>; if it is still equal to the sentinel, the text of the hero
  title, else of the first \<^verbatim>\<open>h1\<close>, replaces it when there is such an element.
\<close>

definition get_show_info :: "runtime \<Rightarrow> string \<Rightarrow> py_error + show_info" where
  \<open>get_show_info rt imdb_id =
     and_then (fetch rt (''https://www.imdb.com/title/'' @ imdb_id @ ''/'')) (\<lambda>soup.
     and_then (extract_json_ld rt soup) (\<lambda>json_ld.
     and_then
       (if truthy json_ld
        then and_then (dict_get json_ld ''name'' (JStr ''Unknown Show'')) (\<lambda>name.
             and_then (dict_get json_ld ''numberOfSeasons'' JNull) (\<lambda>number_of_seasons.
             Inr (name, number_of_seasons)))
        else Inr (JStr ''Unknown Show'', JNull))
       (\<lambda>(name, number_of_seasons).
          let name' =
                (if name = JStr ''Unknown Show''
                 then (case title_heading soup of
                         Some title_elem \<Rightarrow> JStr (el_text_strip title_elem)
                       | None \<Rightarrow> name)
                 else name);
              poster_elem =
                orelse (select_one soup ''img.ipc-image[srcset]'')
                       (select_one soup ''div[data-testid="hero-media__poster"] img'');
              poster_url =
                (case poster_elem of
                   Some e \<Rightarrow> map_of (el_attrs e) ''src''
                 | None \<Rightarrow> None)
          in Inr \<lparr>name = name', poster_url = poster_url,
                  number_of_seasons = number_of_seasons\<rparr>)))\<close>

text \<open>
  In the words of the specification: the name the structured data gives, if any. It is the
  value under \<^verbatim>\<open>name\<close> of a payload that is a JSON object.
\<close>

fun payload_name :: "json \<Rightarrow> json option" where
  "payload_name (JObj kvs) = map_of kvs ''name''"
| "payload_name x = None"

section \<open>Season Enumerator\<close>

text \<open>\<^verbatim>\<open>known_season_count > 0\<close>.\<close>

fun gt_zero :: "json \<Rightarrow> py_error + bool" where
  "gt_zero (JInt i) = Inr (0 < i)"
| "gt_zero (JBool b) = Inr b"
| "gt_zero (JFloat f) = Inr (float_lt (Finite 0) f)"
| "gt_zero x = Inl TypeError"

text \<open>
  \<^verbatim>\<open>list(range(1, n + 1))\<close>: the integers from 1 to \<open>n\<close>, none when \<open>n < 1\<close>. A list longer
  than \<^verbatim>\<open>sys.maxsize\<close> is refused with \<^verbatim>\<open>OverflowError\<close>, one that does not fit in memory
  with \<^verbatim>\<open>MemoryError\<close>. A bool counts as 0 or 1; \<^verbatim>\<open>range\<close> refuses a float, and \<^verbatim>\<open>+ 1\<close>
  refuses the other types.
\<close>

definition list_range_1 :: "runtime \<Rightarrow> int \<Rightarrow> py_error + int list" where
  "list_range_1 rt n =
     (if int (maxsize rt) < n then Inl OverflowError
      else if int (max_list_len rt) < n then Inl MemoryError
      else Inr [1..n])"

fun range_1_to :: "runtime \<Rightarrow> json \<Rightarrow> py_error + int list" where
  "range_1_to rt (JInt n) = list_range_1 rt n"
| "range_1_to rt (JBool b) = list_range_1 rt (if b then 1 else 0)"
| "range_1_to rt x = Inl TypeError"

text \<open>
  The loop over the season links: each link whose \<^verbatim>\<open>href\<close> (the empty string when absent)
  has a match of \<^verbatim>\<open>season=(\d+)\<close> adds the number to the set.
\<close>

fun collect_seasons :: "runtime \<Rightarrow> element list \<Rightarrow> int set \<Rightarrow> py_error + int set" where
  "collect_seasons rt [] seasons = Inr seasons"
| "collect_seasons rt (link # links) seasons =
     (case re_search ''season=''
             (case map_of (el_attrs link) ''href'' of Some h \<Rightarrow> h | None \<Rightarrow> []) of
        None \<Rightarrow> collect_seasons rt links seasons
      | Some ds \<Rightarrow>
          and_then (py_int_str rt ds) (\<lambda>n. collect_seasons rt links (insert n seasons)))"

definition seasons_from_links :: "runtime \<Rightarrow> element \<Rightarrow> py_error + int list" where
  \<open>seasons_from_links rt soup =
     (let season_links =
            select soup ''a[href*="episodes?season="], a[href*="episodes/?season="]''
      in if season_links \<noteq> []
         then and_then (collect_seasons rt season_links {}) (\<lambda>seasons.
                if seasons \<noteq> {} then Inr (sorted_list_of_set seasons) else Inr [1])
         else Inr [1])\<close>

text \<open>
  \<^verbatim>\<open>get_seasons(imdb_id, known_season_count)\<close>. The listing page is fetched only when the
  known count is \<^verbatim>\<open>None\<close> or not above 0.
\<close>

definition get_seasons :: "runtime \<Rightarrow> string \<Rightarrow> json \<Rightarrow> py_error + int list" where
  "get_seasons rt imdb_id known_season_count =
     and_then (if known_season_count \<noteq> JNull then gt_zero known_season_count else Inr False)
       (\<lambda>known.
     if known then range_1_to rt known_season_count
     else
       and_then (fetch rt (''https://www.imdb.com/title/'' @ imdb_id @ ''/episodes/'')) (\<lambda>soup.
       and_then (extract_json_ld rt soup) (\<lambda>json_ld.
       if truthy json_ld
       then
         and_then (py_in ''partOfSeries'' json_ld) (\<lambda>has_series.
         and_then
           (if has_series
            then and_then (py_getitem json_ld ''partOfSeries'') (\<lambda>series_data.
                 and_then (py_in ''numberOfSeasons'' series_data) (\<lambda>has_count.
                 if has_count
                 then and_then (py_getitem series_data ''numberOfSeasons'') (\<lambda>n.
                      and_then (range_1_to rt n) (\<lambda>r. Inr (Some r)))
                 else Inr None))
            else Inr None)
           (\<lambda>returned.
         case returned of
           Some r \<Rightarrow> Inr r
         | None \<Rightarrow>
             and_then (py_in ''numberOfSeasons'' json_ld) (\<lambda>has_count.
             if has_count
             then and_then (py_getitem json_ld ''numberOfSeasons'') (range_1_to rt)
             else seasons_from_links rt soup)))
       else seasons_from_links rt soup)))"

section \<open>Episode Extractor\<close>

record episode =
  episode_num :: int
  title :: json
  rating :: "pyfloat option"

text \<open>
  The rating of one entry of the payload, from its \<^verbatim>\<open>aggregateRating\<close> (\<^verbatim>\<open>{}\<close> when the key
  is absent): \<^verbatim>\<open>None\<close> unless that value is true, has a \<^verbatim>\<open>ratingValue\<close> other than
  \<^verbatim>\<open>None\<close>, and \<^verbatim>\<open>float\<close> accepts it. The \<^verbatim>\<open>try\<close> catches \<^verbatim>\<open>ValueError\<close> and
  \<^verbatim>\<open>TypeError\<close>, nothing else.
\<close>

definition json_ld_rating :: "runtime \<Rightarrow> json \<Rightarrow> py_error + pyfloat option" where
  "json_ld_rating rt agg_rating =
     (if truthy agg_rating
      then and_then (dict_get agg_rating ''ratingValue'' JNull) (\<lambda>rating_val.
             if rating_val \<noteq> JNull
             then (case py_float rt rating_val of
                     Inr f \<Rightarrow> Inr (Some f)
                   | Inl ValueError \<Rightarrow> Inr None
                   | Inl TypeError \<Rightarrow> Inr None
                   | Inl e \<Rightarrow> Inl e)
             else Inr None)
      else Inr None)"

text \<open>
  The body of the loop over the payload's \<^verbatim>\<open>episode\<close> list, for the entry \<open>ep_data\<close> when
  \<open>n\<close> records have been appended so far.
\<close>

definition json_ld_episode :: "runtime \<Rightarrow> json \<Rightarrow> nat \<Rightarrow> py_error + episode" where
  "json_ld_episode rt ep_data n =
     and_then (dict_get ep_data ''episodeNumber'' (JInt (int n + 1))) (\<lambda>episode_num.
     and_then (dict_get ep_data ''name'' (JStr (''Episode '' @ format_value rt episode_num)))
       (\<lambda>title.
     and_then (dict_get ep_data ''aggregateRating'' (JObj [])) (\<lambda>agg_rating.
     and_then (json_ld_rating rt agg_rating) (\<lambda>rating.
     and_then (if truthy episode_num then py_int rt episode_num else Inr (int n + 1)) (\<lambda>num.
     Inr \<lparr>episode_num = num, title = title, rating = rating\<rparr>)))))"

fun json_ld_episodes :: "runtime \<Rightarrow> json list \<Rightarrow> episode list \<Rightarrow> py_error + episode list" where
  "json_ld_episodes rt [] episodes = Inr episodes"
| "json_ld_episodes rt (ep_data # rest) episodes =
     and_then (json_ld_episode rt ep_data (length episodes)) (\<lambda>ep.
     json_ld_episodes rt rest (episodes @ [ep]))"

text \<open>
  The pattern \<^verbatim>\<open>(\d+\.?\d*)\<close>: from the first digit of the text, the digits, a dot if one
  follows, and the digits after it.
\<close>

definition re_search_number :: "string \<Rightarrow> string option" where
  "re_search_number s =
     (let t = dropWhile (\<lambda>c. \<not> is_digit c) s
      in if t = [] then None
         else (case dropWhile is_digit t of
                 c # r \<Rightarrow>
                   if c = CHR ''.'' then Some (takeWhile is_digit t @ ''.'' @ takeWhile is_digit r)
                   else Some (takeWhile is_digit t)
               | [] \<Rightarrow> Some (takeWhile is_digit t)))"

text \<open>
  The rating of one container of the markup: \<^verbatim>\<open>None\<close> unless one of the four rating
  elements is there, its text has a number, and \<^verbatim>\<open>float\<close> accepts that number; the
  \<^verbatim>\<open>ValueError\<close> of \<^verbatim>\<open>float\<close> is caught.
\<close>

definition css_rating :: "runtime \<Rightarrow> element \<Rightarrow> pyfloat option" where
  \<open>css_rating rt item =
     (let rating_elem =
            orelse (select_one item ''span.ipc-rating-star--rating'')
           (orelse (select_one item ''span.ipc-rating-star'')
           (orelse (select_one item ''.ratingValue span'')
                   (select_one item ''[data-testid="ratingGroup--imdb-rating"]'')))
      in case rating_elem of
           None \<Rightarrow> None
         | Some e \<Rightarrow>
             (case re_search_number (el_text_strip e) of
                None \<Rightarrow> None
              | Some m \<Rightarrow> float_of_str rt m))\<close>

text \<open>The title of one container; \<open>idx\<close> is its 1-based position.\<close>

definition css_title :: "runtime \<Rightarrow> nat \<Rightarrow> element \<Rightarrow> string" where
  \<open>css_title rt idx item =
     (let title_elem =
            orelse (select_one item ''a[data-testid="episode-title-link"]'')
           (orelse (select_one item ''a[itemprop="name"]'')
           (orelse (select_one item ''strong a'')
                   (select_one item ''a[href*="/title/tt"]'')));
          title = (case title_elem of Some e \<Rightarrow> el_text_strip e | None \<Rightarrow> []);
          title' =
            (if title = []
             then (case select_one item ''div.ipc-title__text'' of
                     Some title_div \<Rightarrow>
                       (case re_title rt (el_text_strip title_div) of
                          Some g \<Rightarrow> g
                        | None \<Rightarrow> el_text_strip title_div)
                   | None \<Rightarrow> title)
             else title)
      in if title' = [] then ''Episode '' @ format_value rt (JInt (int idx)) else title')\<close>

text \<open>The episode number of one container: the position, or the number after the first E.\<close>

definition css_episode_num :: "runtime \<Rightarrow> nat \<Rightarrow> element \<Rightarrow> py_error + int" where
  "css_episode_num rt idx item =
     (case select_one item ''div.ipc-title__text'' of
        None \<Rightarrow> Inr (int idx)
      | Some ep_num_elem \<Rightarrow>
          (case re_search ''E'' (el_text ep_num_elem) of
             None \<Rightarrow> Inr (int idx)
           | Some ds \<Rightarrow> py_int_str rt ds))"

definition css_episode :: "runtime \<Rightarrow> nat \<Rightarrow> element \<Rightarrow> py_error + episode" where
  "css_episode rt idx item =
     and_then (css_episode_num rt idx item) (\<lambda>ep_num.
     Inr \<lparr>episode_num = ep_num, title = JStr (css_title rt idx item),
          rating = css_rating rt item\<rparr>)"

fun css_episodes :: "runtime \<Rightarrow> nat \<Rightarrow> element list \<Rightarrow> episode list \<Rightarrow> py_error + episode list"
  where
  "css_episodes rt idx [] episodes = Inr episodes"
| "css_episodes rt idx (item # items) episodes =
     and_then (css_episode rt idx item) (\<lambda>ep.
     css_episodes rt (Suc idx) items (episodes @ [ep]))"

text \<open>The containers: the first of the three selectors that matches anything.\<close>

definition episode_items :: "element \<Rightarrow> element list" where
  \<open>episode_items soup =
     (let items = select soup ''article.episode-item-wrapper'';
          items' = (if items = [] then select soup ''div.list_item'' else items)
      in if items' = [] then select soup ''[data-testid="episodes-container"] > div''
         else items')\<close>

text \<open>\<^verbatim>\<open>_get_episode_ratings_css_fallback(soup)\<close>.\<close>

definition get_episode_ratings_css_fallback :: "runtime \<Rightarrow> element \<Rightarrow> py_error + episode list"
  where
  "get_episode_ratings_css_fallback rt soup = css_episodes rt 1 (episode_items soup) []"

text \<open>
  \<^verbatim>\<open>get_episode_ratings(imdb_id, season)\<close>. Besides the list the function returns, the result
  of the model records whether the call of \<^verbatim>\<open>_get_episode_ratings_css_fallback\<close> on the last
  line was reached.
\<close>

record extraction =
  records :: "episode list"
  css_fallback_ran :: bool

definition run_css_fallback :: "runtime \<Rightarrow> element \<Rightarrow> py_error + extraction" where
  "run_css_fallback rt soup =
     and_then (get_episode_ratings_css_fallback rt soup) (\<lambda>eps.
     Inr \<lparr>records = eps, css_fallback_ran = True\<rparr>)"

definition season_url :: "runtime \<Rightarrow> string \<Rightarrow> int \<Rightarrow> string" where
  "season_url rt imdb_id season =
     ''https://www.imdb.com/title/'' @ imdb_id @ ''/episodes/?season=''
       @ format_value rt (JInt season)"

definition get_episode_ratings :: "runtime \<Rightarrow> string \<Rightarrow> int \<Rightarrow> py_error + extraction" where
  "get_episode_ratings rt imdb_id season =
     and_then (fetch rt (season_url rt imdb_id season)) (\<lambda>soup.
     and_then (extract_json_ld rt soup) (\<lambda>json_ld.
     if truthy json_ld
     then and_then (dict_get json_ld ''episode'' (JList [])) (\<lambda>episode_list.
            case episode_list of
              JList (ep_data # rest) \<Rightarrow>
                and_then (json_ld_episodes rt (ep_data # rest) []) (\<lambda>episodes.
                if episodes \<noteq> []
                then Inr \<lparr>records = sort_key episode_num episodes, css_fallback_ran = False\<rparr>
                else run_css_fallback rt soup)
            | _ \<Rightarrow> run_css_fallback rt soup)
     else run_css_fallback rt soup))"

section \<open>Analytics Engine\<close>

text \<open>
  The entries of \<^verbatim>\<open>seasons_data\<close>, of \<^verbatim>\<open>all_episodes\<close> (keys \<^verbatim>\<open>season\<close>, \<^verbatim>\<open>episode\<close>,
  \<^verbatim>\<open>title\<close>, \<^verbatim>\<open>rating\<close>) and of \<^verbatim>\<open>season_averages\<close> (keys \<^verbatim>\<open>season_num\<close>, \<^verbatim>\<open>average\<close>,
  \<^verbatim>\<open>episode_count\<close>), and the dict \<^verbatim>\<open>calculate_analytics\<close> returns. A key that two
  kinds of dict share gets a prefix in the second record.
\<close>

record season =
  season_num :: int
  episodes :: "episode list"

record rated_episode =
  rated_season :: int
  rated_episode_num :: int
  rated_title :: json
  rated_rating :: pyfloat

record season_average =
  sa_season_num :: int
  average :: pyfloat
  episode_count :: nat

record analytics =
  min_episode :: "rated_episode option"
  max_episode :: "rated_episode option"
  overall_average :: "pyfloat option"
  season_averages :: "season_average list"
  best_season :: "season_average option"
  worst_season :: "season_average option"
  total_episodes :: nat

text \<open>
  \<^verbatim>\<open>min(xs, key=k)\<close> and \<^verbatim>\<open>max(xs, key=k)\<close> on a list with first element \<open>best\<close>: a later
  element replaces the best so far only when its key is strictly smaller (larger).
\<close>

fun min_by :: "('a \<Rightarrow> pyfloat) \<Rightarrow> 'a \<Rightarrow> 'a list \<Rightarrow> 'a" where
  "min_by k best [] = best"
| "min_by k best (x # xs) = min_by k (if float_lt (k x) (k best) then x else best) xs"

fun max_by :: "('a \<Rightarrow> pyfloat) \<Rightarrow> 'a \<Rightarrow> 'a list \<Rightarrow> 'a" where
  "max_by k best [] = best"
| "max_by k best (x # xs) = max_by k (if float_lt (k best) (k x) then x else best) xs"

text \<open>
  The inner loop, over the episodes of one season: an episode with a rating is appended to
  \<^verbatim>\<open>all_episodes\<close> and its rating to \<^verbatim>\<open>season_ratings\<close>.
\<close>

fun rate_episodes ::
  "int \<Rightarrow> episode list \<Rightarrow> rated_episode list \<Rightarrow> pyfloat list
     \<Rightarrow> rated_episode list \<times> pyfloat list" where
  "rate_episodes sn [] all_episodes season_ratings = (all_episodes, season_ratings)"
| "rate_episodes sn (ep # eps) all_episodes season_ratings =
     (case rating ep of
        None \<Rightarrow> rate_episodes sn eps all_episodes season_ratings
      | Some r \<Rightarrow>
          rate_episodes sn eps
            (all_episodes @ [\<lparr>rated_season = sn, rated_episode_num = episode_num ep,
                              rated_title = title ep, rated_rating = r\<rparr>])
            (season_ratings @ [r]))"

text \<open>The outer loop, over the seasons.\<close>

fun rate_seasons ::
  "runtime \<Rightarrow> season list \<Rightarrow> rated_episode list \<Rightarrow> season_average list
     \<Rightarrow> rated_episode list \<times> season_average list" where
  "rate_seasons rt [] all_episodes averages = (all_episodes, averages)"
| "rate_seasons rt (s # ss) all_episodes averages =
     (case rate_episodes (season_num s) (episodes s) all_episodes [] of
        (all_episodes', season_ratings) \<Rightarrow>
          rate_seasons rt ss all_episodes'
            (if season_ratings \<noteq> []
             then averages @
                    [\<lparr>sa_season_num = season_num s,
                      average = float_div_int rt (float_sum rt season_ratings)
                                  (length season_ratings),
                      episode_count = length season_ratings\<rparr>]
             else averages))"

definition calculate_analytics :: "runtime \<Rightarrow> season list \<Rightarrow> analytics" where
  "calculate_analytics rt seasons_data =
     (case rate_seasons rt seasons_data [] [] of
        (all_episodes, averages) \<Rightarrow>
          (case all_episodes of
             [] \<Rightarrow>
               \<lparr>min_episode = None, max_episode = None, overall_average = None,
                season_averages = [], best_season = None, worst_season = None,
                total_episodes = 0\<rparr>
           | e # es \<Rightarrow>
               \<lparr>min_episode = Some (min_by rated_rating e es),
                max_episode = Some (max_by rated_rating e es),
                overall_average =
                  Some (round2 rt (float_div_int rt (float_sum rt (map rated_rating all_episodes))
                                     (length all_episodes))),
                season_averages = averages,
                best_season =
                  (case averages of [] \<Rightarrow> None | a # as \<Rightarrow> Some (max_by average a as)),
                worst_season =
                  (case averages of [] \<Rightarrow> None | a # as \<Rightarrow> Some (min_by average a as)),
                total_episodes = length all_episodes\<rparr>))"

text \<open>
  In the words of the specification: the number of episodes of a season that carry a
  rating, and the present ratings of all seasons in the order of iteration.
\<close>

definition rated_count :: "season \<Rightarrow> nat" where
  "rated_count s = length (filter (\<lambda>e. rating e \<noteq> None) (episodes s))"

definition present_ratings :: "season list \<Rightarrow> pyfloat list" where
  "present_ratings seasons_data = concat (map (\<lambda>s. List.map_filter rating (episodes s)) seasons_data)"






section \<open>A runtime and documents for the examples\<close>

text \<open>
  The examples below run the model on concrete pages. Their runtime agrees with CPython on
  every input the examples reach: \<open>example_loads\<close> knows the JSON texts of the example
  pages, \<open>example_float\<close> the decimal numbers that are doubles, and \<open>decimal\<close> writes an
  integer as an f-string does. The float operations are those of double arithmetic, and
  the title pattern is the one of the source.
\<close>

fun decimal :: "nat \<Rightarrow> string" where
  "decimal n =
     (if n < 10 then [''0123456789'' ! n]
      else decimal (n div 10) @ [''0123456789'' ! (n mod 10)])"

declare decimal.simps [simp del]

fun example_format :: "json \<Rightarrow> string" where
  "example_format (JInt i) = (if i < 0 then ''-'' @ decimal (nat (- i)) else decimal (nat i))"
| "example_format (JStr s) = s"
| "example_format x = ''?''"

definition empty_name_text :: string where
  \<open>empty_name_text = ''{"name": ""}''\<close>

definition show_text :: string where
  \<open>show_text = ''{"name": "Breaking Bad", "numberOfSeasons": 5}''\<close>

definition list_payload_text :: string where
  \<open>list_payload_text = ''[{"name": "Breaking Bad"}]''\<close>

definition zero_seasons_text :: string where
  \<open>zero_seasons_text = ''{"numberOfSeasons": 0}''\<close>

definition episodes_text :: string where
  \<open>episodes_text =
     ''{"episode": [{"episodeNumber": 2, "name": "Cat", "aggregateRating": {"ratingValue": 9.5}}, ''
     @ ''{"episodeNumber": 1, "name": "Pilot", "aggregateRating": {"ratingValue": "n/a"}}]}''\<close>

definition huge_rating_text :: string where
  \<open>huge_rating_text =
     ''{"episode": [{"episodeNumber": 1, "name": "Pilot", "aggregateRating": {"ratingValue": 1''
       @ replicate 400 (CHR ''0'') @ ''}}]}''\<close>

definition example_loads :: "string \<Rightarrow> py_error + json" where
  "example_loads s =
     (if s = empty_name_text then Inr (JObj [(''name'', JStr [])])
      else if s = show_text
        then Inr (JObj [(''name'', JStr ''Breaking Bad''), (''numberOfSeasons'', JInt 5)])
      else if s = list_payload_text then Inr (JList [JObj [(''name'', JStr ''Breaking Bad'')]])
      else if s = zero_seasons_text then Inr (JObj [(''numberOfSeasons'', JInt 0)])
      else if s = episodes_text
        then Inr (JObj [(''episode'', JList
               [JObj [(''episodeNumber'', JInt 2), (''name'', JStr ''Cat''),
                      (''aggregateRating'', JObj [(''ratingValue'', JFloat (Finite (19 / 2)))])],
                JObj [(''episodeNumber'', JInt 1), (''name'', JStr ''Pilot''),
                      (''aggregateRating'', JObj [(''ratingValue'', JStr ''n/a'')])]])])
      else if s = huge_rating_text
        then Inr (JObj [(''episode'', JList
               [JObj [(''episodeNumber'', JInt 1), (''name'', JStr ''Pilot''),
                      (''aggregateRating'', JObj [(''ratingValue'', JInt (10 ^ 400))])]])])
      else Inl JSONDecodeError)"

definition example_float :: "string \<Rightarrow> pyfloat option" where
  "example_float s =
     (if s = ''8.5'' then Some (Finite (17 / 2))
      else if s = ''9.5'' then Some (Finite (19 / 2))
      else if s = ''7'' then Some (Finite 7)
      else None)"

text \<open>
  The episode-prefix pattern of \<^verbatim>\<open>_get_episode_ratings_css_fallback\<close> on HOL strings:
  \<^verbatim>\<open>E\<close> or \<^verbatim>\<open>S\<close>, digits, an optional dot, an optional \<^verbatim>\<open>E\<close> or \<^verbatim>\<open>S\<close>, digits if any,
  white space if any, the middle dot U+00B7 (the bullet U+2219 is no character of a HOL
  string), white space if any, and as group 1 at least one character up to the end of the
  line. Each part takes as much as it can; only the white space before the group gives
  characters back, when nothing would be left for the group.
\<close>

definition is_space :: "char \<Rightarrow> bool" where
  "is_space c = (of_char c \<in> {9, 10, 11, 12, 13, 28, 29, 30, 31, 32, 133, 160 :: nat})"

fun title_group :: "nat \<Rightarrow> string \<Rightarrow> string option" where
  "title_group j r =
     (case drop j r of
        c # t \<Rightarrow>
          if c \<noteq> CHR 0x0A then Some (takeWhile (\<lambda>c. c \<noteq> CHR 0x0A) (c # t))
          else (case j of 0 \<Rightarrow> None | Suc i \<Rightarrow> title_group i r)
      | [] \<Rightarrow> (case j of 0 \<Rightarrow> None | Suc i \<Rightarrow> title_group i r))"

definition title_match_here :: "string \<Rightarrow> string option" where
  "title_match_here s =
     (case s of
        [] \<Rightarrow> None
      | c # r \<Rightarrow>
          if (c = CHR ''E'' \<or> c = CHR ''S'') \<and> takeWhile is_digit r \<noteq> []
          then let r1 = dropWhile is_digit r;
                   r2 = (case r1 of [] \<Rightarrow> r1 | d # t \<Rightarrow> if d = CHR ''.'' then t else r1);
                   r3 = (case r2 of
                           [] \<Rightarrow> r2
                         | d # t \<Rightarrow> if d = CHR ''E'' \<or> d = CHR ''S'' then t else r2);
                   r5 = dropWhile is_space (dropWhile is_digit r3)
               in (case r5 of
                     [] \<Rightarrow> None
                   | b # r6 \<Rightarrow>
                       if b = CHR 0xB7
                       then title_group (length (takeWhile is_space r6)) r6
                       else None)
          else None)"

fun title_search :: "string \<Rightarrow> string option" where
  "title_search [] = title_match_here []"
| "title_search (c # cs) =
     (case title_match_here (c # cs) of
        Some g \<Rightarrow> Some g
      | None \<Rightarrow> title_search cs)"

definition example_runtime :: "(string \<times> element) list \<Rightarrow> runtime" where
  "example_runtime pages =
     \<lparr>fetch = (\<lambda>url. case map_of pages url of
                        Some page \<Rightarrow> Inr page
                      | None \<Rightarrow> Inl (OtherError ''404'')),
      json_loads = example_loads,
      float_of_str = example_float,
      int_of_str = (\<lambda>s. None),
      max_str_digits = 4300,
      maxsize = 2 ^ 63 - 1,
      max_list_len = 2 ^ 32,
      format_value = example_format,
      re_title = title_search,
      float_sum = double_sum,
      float_div_int = double_div_int,
      round2 = double_round2\<rparr>"


definition show_url :: string where
  "show_url = ''https://www.imdb.com/title/tt0903747/''"

definition listing_url :: string where
  "listing_url = ''https://www.imdb.com/title/tt0903747/episodes/''"

definition season1_url :: string where
  "season1_url = ''https://www.imdb.com/title/tt0903747/episodes/?season=1''"

text \<open>A page that has nothing but the given JSON-LD script.\<close>

definition page_with_script :: "string \<Rightarrow> element" where
  "page_with_script s = Element (Some (Some s)) [] [] [] []"

text \<open>
  A season page without structured data whose two \<^verbatim>\<open>div.list_item\<close> containers carry, in
  this order, episode 2 rated 8.5 and episode 1 with a rating element that has no number.
\<close>

definition text_element :: "string \<Rightarrow> element" where
  "text_element s = Element None [] s s []"

definition markup_item :: "string \<Rightarrow> string \<Rightarrow> element" where
  "markup_item heading stars =
     Element None
       [(''div.ipc-title__text'', [text_element heading]),
        (''span.ipc-rating-star'', [text_element stars])] [] [] []"

text \<open>A listing page without structured data whose one season link is for season 0.\<close>

definition season_zero_page :: element where
  \<open>season_zero_page =
     Element None
       [(''a[href*="episodes?season="], a[href*="episodes/?season="]'',
         [Element None [] ''Specials'' ''Specials''
            [(''href'', ''/title/tt0903747/episodes?season=0'')]])]
       [] [] []\<close>

definition markup_page :: element where
  "markup_page =
     Element None
       [(''div.list_item'', [markup_item ''S1.E2 Cat'' ''8.5/10'', markup_item ''S1.E1 Pilot'' ''n/a''])]
       [] [] []"

section \<open>Properties of the Identifier Resolver\<close>

lemma match_here_SomeD:
  "match_here lit s = Some ds \<Longrightarrow>
     prefix lit s \<and> ds = takeWhile is_digit (drop (length lit) s) \<and> ds \<noteq> []"
  by (auto simp: match_here_def split: if_splits)

lemma re_search_Some:
  "re_search lit s = Some ds \<Longrightarrow>
     \<exists>n\<le>length s. match_here lit (drop n s) = Some ds
        \<and> (\<forall>k<n. match_here lit (drop k s) = None)"
proof (induction s)
  case Nil
  then show ?case by simp
next
  case (Cons c cs)
  show ?case
  proof (cases "match_here lit (c # cs)")
    case (Some a)
    with Cons.prems have "match_here lit (drop 0 (c # cs)) = Some ds" by simp
    then show ?thesis by blast
  next
    case None
    with Cons.prems have "re_search lit cs = Some ds" by simp
    from Cons.IH[OF this] obtain n where n: "n \<le> length cs"
      "match_here lit (drop n cs) = Some ds" "\<forall>k<n. match_here lit (drop k cs) = None"
      by blast
    have "\<forall>k<Suc n. match_here lit (drop k (c # cs)) = None"
    proof (intro allI impI)
      fix k assume "k < Suc n"
      then show "match_here lit (drop k (c # cs)) = None"
        using None n(3) by (cases k) auto
    qed
    with n(1,2) show ?thesis
      by (intro exI[of _ "Suc n"]) simp
  qed
qed

lemma re_search_None:
  "re_search lit s = None \<Longrightarrow> match_here lit (drop n s) = None"
proof (induction s arbitrary: n)
  case Nil
  then show ?case by simp
next
  case (Cons c cs)
  then show ?case
    by (cases n) (auto split: option.splits)
qed

lemma occurs_match:
  assumes "is_imdb_id m" "occurs_at m url n"
  shows "\<exists>ds. match_here ''tt'' (drop n url) = Some ds \<and> prefix m (''tt'' @ ds)"
proof -
  from assms(2) obtain post where url: "drop n url = m @ post"
    unfolding occurs_at_def by (metis append_take_drop_id)
  obtain d where m: "m = ''tt'' @ d" and d: "d \<noteq> []" "\<forall>c\<in>set d. is_digit c"
    using assms(1) unfolding is_imdb_id_def list_all_iff by (metis append_take_drop_id)
  have tw: "takeWhile is_digit (d @ post) = d @ takeWhile is_digit post"
    using d(2) by (simp add: takeWhile_append2)
  have "match_here ''tt'' (''tt'' @ d @ post) = Some (d @ takeWhile is_digit post)"
    unfolding match_here_def using d(1) by (simp add: tw)
  then have "match_here ''tt'' (drop n url) = Some (d @ takeWhile is_digit post)"
    by (simp add: url m)
  moreover have "prefix m (''tt'' @ d @ takeWhile is_digit post)"
    by (simp add: m)
  ultimately show ?thesis by blast
qed

lemma match_occurs:
  assumes "match_here ''tt'' (drop n url) = Some ds" "n \<le> length url"
  shows "is_imdb_id (''tt'' @ ds) \<and> occurs_at (''tt'' @ ds) url n"
proof -
  from match_here_SomeD[OF assms(1)] obtain rest where r: "drop n url = ''tt'' @ rest"
    by (auto simp: prefix_def)
  from assms(1) have ds: "ds = takeWhile is_digit rest" "ds \<noteq> []"
    unfolding r match_here_def by (auto split: if_splits)
  have "rest = ds @ dropWhile is_digit rest" using ds(1) by simp
  with r have full: "drop n url = (''tt'' @ ds) @ dropWhile is_digit rest" by simp
  have "length (drop n url) = length url - n" by simp
  then have "length ((''tt'' @ ds) @ dropWhile is_digit rest) = length url - n"
    by (simp only: full)
  then have len: "n + length (''tt'' @ ds) \<le> length url"
    using assms(2) by simp
  have tk: "take (length (''tt'' @ ds)) (drop n url) = ''tt'' @ ds"
    by (subst full) simp
  have "list_all is_digit ds" unfolding ds(1) list_all_iff
    by (auto dest: set_takeWhileD)
  then have "is_imdb_id (''tt'' @ ds)" using ds(2) by (simp add: is_imdb_id_def)
  moreover have "occurs_at (''tt'' @ ds) url n"
    unfolding occurs_at_def using len tk by blast
  ultimately show ?thesis by blast
qed

lemma contains_iff: "contains_imdb_id url \<longleftrightarrow> re_search ''tt'' url \<noteq> None"
proof
  assume "contains_imdb_id url"
  then obtain n m where "is_imdb_id m" "occurs_at m url n" unfolding contains_imdb_id_def by blast
  from occurs_match[OF this] obtain ds where "match_here ''tt'' (drop n url) = Some ds" by blast
  then show "re_search ''tt'' url \<noteq> None" using re_search_None[of "''tt''" url n] by auto
next
  assume "re_search ''tt'' url \<noteq> None"
  then obtain ds where "re_search ''tt'' url = Some ds" by auto
  from re_search_Some[OF this] obtain n where "n \<le> length url" "match_here ''tt'' (drop n url) = Some ds" by blast
  from match_occurs[OF this(2,1)] show "contains_imdb_id url" unfolding contains_imdb_id_def by blast
qed

text \<open>
  C4. When the reference string contains a substring that is \<^verbatim>\<open>tt\<close> followed by one or more
  digits, \<open>get_imdb_id\<close> returns such a substring, the first one: none occurs at a smaller
  offset, and every one at the same offset is a prefix of it. When the string contains
  none, \<open>get_imdb_id\<close> raises \<^verbatim>\<open>ValueError\<close>, which nothing in the module catches.
\<close>

theorem get_imdb_id_first_match:
  "(contains_imdb_id url \<longrightarrow>
      (\<exists>n m. get_imdb_id url = Inr m \<and> is_imdb_id m \<and> occurs_at m url n
         \<and> (\<forall>n' m'. is_imdb_id m' \<and> occurs_at m' url n' \<longrightarrow>
               n \<le> n' \<and> (n' = n \<longrightarrow> prefix m' m))))
   \<and> (\<not> contains_imdb_id url \<longrightarrow> get_imdb_id url = Inl ValueError)"
proof (intro conjI impI)
  assume "contains_imdb_id url"
  then obtain ds where s: "re_search ''tt'' url = Some ds" using contains_iff by auto
  from re_search_Some[OF s] obtain n where n: "n \<le> length url"
    "match_here ''tt'' (drop n url) = Some ds" "\<forall>k<n. match_here ''tt'' (drop k url) = None"
    by blast
  have g: "get_imdb_id url = Inr (''tt'' @ ds)" by (simp add: get_imdb_id_def s)
  have first: "n \<le> n' \<and> (n' = n \<longrightarrow> prefix m' (''tt'' @ ds))"
    if "is_imdb_id m' \<and> occurs_at m' url n'" for n' m'
  proof -
    from that occurs_match obtain ds' where
      d: "match_here ''tt'' (drop n' url) = Some ds'" "prefix m' (''tt'' @ ds')" by blast
    have "n \<le> n'" using n(3) d(1) by (metis not_le option.distinct(1))
    moreover have "prefix m' (''tt'' @ ds)" if "n' = n" using that d n(2) by simp
    ultimately show ?thesis by blast
  qed
  from match_occurs[OF n(2,1)] g first
  show "\<exists>n m. get_imdb_id url = Inr m \<and> is_imdb_id m \<and> occurs_at m url n
         \<and> (\<forall>n' m'. is_imdb_id m' \<and> occurs_at m' url n' \<longrightarrow>
               n \<le> n' \<and> (n' = n \<longrightarrow> prefix m' m))"
    by blast
next
  assume "\<not> contains_imdb_id url"
  then show "get_imdb_id url = Inl ValueError"
    by (simp add: contains_iff get_imdb_id_def)
qed

theorem get_imdb_id_first_match_witness:
  "contains_imdb_id ''https://example.com/title/tt0903747/episodes''
   \<and> get_imdb_id ''https://example.com/title/tt0903747/episodes'' = Inr ''tt0903747''
   \<and> (\<exists>n. occurs_at ''tt0903747'' ''https://example.com/title/tt0903747/episodes'' n
         \<and> (\<forall>n' m'. is_imdb_id m'
                \<and> occurs_at m' ''https://example.com/title/tt0903747/episodes'' n' \<longrightarrow>
                n \<le> n' \<and> (n' = n \<longrightarrow> prefix m' ''tt0903747'')))
   \<and> \<not> contains_imdb_id ''https://example.com/title/''
   \<and> get_imdb_id ''https://example.com/title/'' = Inl ValueError"
proof -
  let ?u = "''https://example.com/title/tt0903747/episodes''"
  let ?v = "''https://example.com/title/''"
  have c: "contains_imdb_id ?u"
    by (simp add: contains_iff match_here_def is_digit_def)
  have g: "get_imdb_id ?u = Inr ''tt0903747''"
    by (simp add: get_imdb_id_def match_here_def is_digit_def)
  have d: "\<not> contains_imdb_id ?v"
    by (simp add: contains_iff match_here_def is_digit_def)
  from get_imdb_id_first_match [of ?u] c obtain n m where
    "get_imdb_id ?u = Inr m" "occurs_at m ?u n"
    "\<forall>n' m'. is_imdb_id m' \<and> occurs_at m' ?u n' \<longrightarrow> n \<le> n' \<and> (n' = n \<longrightarrow> prefix m' m)"
    by blast
  with g have "\<exists>n. occurs_at ''tt0903747'' ?u n
         \<and> (\<forall>n' m'. is_imdb_id m' \<and> occurs_at m' ?u n' \<longrightarrow>
                n \<le> n' \<and> (n' = n \<longrightarrow> prefix m' ''tt0903747''))"
    by (metis sum.inject(2))
  moreover from get_imdb_id_first_match [of ?v] d have "get_imdb_id ?v = Inl ValueError"
    by blast
  ultimately show ?thesis using c g d by blast
qed

section \<open>Facts about sequencing and about the examples\<close>

lemma and_then_Inr [simp]: "and_then (Inr x) f = f x"
  by (simp add: and_then_def)

lemma and_then_Inl [simp]: "and_then (Inl e) f = Inl e"
  by (simp add: and_then_def)

lemma and_then_eq_Inr:
  "and_then m f = Inr y \<longleftrightarrow> (\<exists>x. m = Inr x \<and> f x = Inr y)"
  by (cases m) auto

lemmas text_defs = empty_name_text_def show_text_def zero_seasons_text_def episodes_text_def
  huge_rating_text_def list_payload_text_def

lemma example_fetch [simp]:
  "fetch (example_runtime pages) url =
     (case map_of pages url of Some page \<Rightarrow> Inr page | None \<Rightarrow> Inl (OtherError ''404''))"
  by (simp add: example_runtime_def)

lemma example_season_url [simp]:
  "season_url (example_runtime pages) ''tt0903747'' 1 = season1_url"
  by (simp add: season_url_def example_runtime_def season1_url_def decimal.simps)

lemma example_extract:
  "extract_json_ld (example_runtime pages) (page_with_script episodes_text) =
     Inr (JObj [(''episode'', JList
               [JObj [(''episodeNumber'', JInt 2), (''name'', JStr ''Cat''),
                      (''aggregateRating'', JObj [(''ratingValue'', JFloat (Finite (19 / 2)))])],
                JObj [(''episodeNumber'', JInt 1), (''name'', JStr ''Pilot''),
                      (''aggregateRating'', JObj [(''ratingValue'', JStr ''n/a'')])]])])"
  "extract_json_ld (example_runtime pages) (page_with_script huge_rating_text) =
     Inr (JObj [(''episode'', JList
               [JObj [(''episodeNumber'', JInt 1), (''name'', JStr ''Pilot''),
                      (''aggregateRating'', JObj [(''ratingValue'', JInt (10 ^ 400))])]])])"
  "extract_json_ld (example_runtime pages) (page_with_script zero_seasons_text) =
     Inr (JObj [(''numberOfSeasons'', JInt 0)])"
  "extract_json_ld (example_runtime pages) (page_with_script empty_name_text) =
     Inr (JObj [(''name'', JStr [])])"
  "extract_json_ld (example_runtime pages) (page_with_script show_text) =
     Inr (JObj [(''name'', JStr ''Breaking Bad''), (''numberOfSeasons'', JInt 5)])"
  "extract_json_ld (example_runtime pages) markup_page = Inr JNull"
  "extract_json_ld (example_runtime pages) season_zero_page = Inr JNull"
  "extract_json_ld (example_runtime pages) (page_with_script list_payload_text) =
     Inr (JList [JObj [(''name'', JStr ''Breaking Bad'')]])"
  by (simp_all add: extract_json_ld_def page_with_script_def example_runtime_def
        example_loads_def text_defs markup_page_def season_zero_page_def)

lemma example_json_ld_episodes:
  "json_ld_episodes (example_runtime pages)
       [JObj [(''episodeNumber'', JInt 2), (''name'', JStr ''Cat''),
              (''aggregateRating'', JObj [(''ratingValue'', JFloat (Finite (19 / 2)))])],
        JObj [(''episodeNumber'', JInt 1), (''name'', JStr ''Pilot''),
              (''aggregateRating'', JObj [(''ratingValue'', JStr ''n/a'')])]] []
     = Inr [\<lparr>episode_num = 2, title = JStr ''Cat'', rating = Some (Finite (19 / 2))\<rparr>,
            \<lparr>episode_num = 1, title = JStr ''Pilot'', rating = None\<rparr>]"
  by (simp add: json_ld_episode_def json_ld_rating_def example_runtime_def example_float_def)

lemma example_fallback:
  "get_episode_ratings_css_fallback (example_runtime pages) markup_page
     = Inr [\<lparr>episode_num = 2, title = JStr ''S1.E2 Cat'', rating = Some (Finite (17 / 2))\<rparr>,
            \<lparr>episode_num = 1, title = JStr ''S1.E1 Pilot'', rating = None\<rparr>]"
  by (simp add: get_episode_ratings_css_fallback_def episode_items_def markup_page_def
        select_def css_episode_def css_episode_num_def css_title_def css_rating_def
        markup_item_def select_one_def orelse_def text_element_def match_here_def is_digit_def
        re_search_number_def py_int_str_def example_float_def digits_value_def digit_value_def
        example_runtime_def title_match_here_def is_space_def)

lemma example_title_search:
  "title_search (''S1.E1 '' @ [CHR 0xB7] @ '' Pilot'') = Some ''Pilot''"
  "title_search ''S1.E2 Cat'' = None"
  by (simp_all add: title_match_here_def is_digit_def is_space_def)

lemma example_items:
  "episode_items markup_page =
     [markup_item ''S1.E2 Cat'' ''8.5/10'', markup_item ''S1.E1 Pilot'' ''n/a'']"
  by (simp add: episode_items_def markup_page_def select_def)

section \<open>Properties of the Show-Metadata Recoverer\<close>

text \<open>
  When the page is fetched and its payload extracted, \<open>get_show_info\<close> raises exactly on a
  payload that is true and not a JSON object, and what it raises is the \<^verbatim>\<open>AttributeError\<close>
  of \<^verbatim>\<open>json_ld.get\<close>.
\<close>

lemma get_show_info_raises_iff:
  assumes "fetch rt (''https://www.imdb.com/title/'' @ imdb_id @ ''/'') = Inr soup"
      and "extract_json_ld rt soup = Inr json_ld"
  shows "get_show_info rt imdb_id = Inl e
           \<longleftrightarrow> e = AttributeError \<and> truthy json_ld \<and> (\<forall>kvs. json_ld \<noteq> JObj kvs)"
  using assms
  by (cases json_ld)
     (auto simp: get_show_info_def Let_def split: option.splits if_splits)

text \<open>
  C9, as the specification states it, fails in both of its parts. A page whose structured
  data is \<^verbatim>\<open>{"name": ""}\<close> has a true payload with the key \<^verbatim>\<open>name\<close>, so the empty string
  replaces the sentinel, is not equal to it, and is returned as the name. And a page whose
  structured data is the JSON array \<^verbatim>\<open>[{"name": "Breaking Bad"}]\<close> has a true payload
  without a method \<^verbatim>\<open>get\<close>, so \<open>get_show_info\<close> raises \<^verbatim>\<open>AttributeError\<close>.
\<close>

theorem get_show_info_empty_name_or_raises:
  "get_show_info (example_runtime [(show_url, page_with_script empty_name_text)]) ''tt0903747''
     = Inr \<lparr>name = JStr [], poster_url = None, number_of_seasons = JNull\<rparr>
   \<and> get_show_info (example_runtime [(show_url, page_with_script list_payload_text)])
       ''tt0903747''
     = Inl AttributeError"
proof -
  have "get_show_info (example_runtime [(show_url, page_with_script empty_name_text)])
          ''tt0903747''
        = Inr \<lparr>name = JStr [], poster_url = None, number_of_seasons = JNull\<rparr>"
    by (simp add: get_show_info_def show_url_def example_extract)
       (simp add: page_with_script_def select_one_def select_def orelse_def)
  moreover have "get_show_info (example_runtime [(show_url, page_with_script list_payload_text)])
          ''tt0903747'' = Inl AttributeError"
    by (simp add: get_show_info_def show_url_def example_extract)
  ultimately show ?thesis by blast
qed

text \<open>
  C9, amended. For a fetched document whose structured-data payload is false (absent,
  \<^verbatim>\<open>null\<close>, empty, zero) or a JSON object, \<open>get_show_info\<close> does not raise. The name it
  returns is the value the payload has under \<^verbatim>\<open>name\<close>, unless there is none or it is the
  sentinel itself; then it is the text of the hero title or of the first \<^verbatim>\<open>h1\<close>, and the
  sentinel \<^verbatim>\<open>Unknown Show\<close> when there is no such heading. The name is a non-empty string
  provided that the payload's name, if there is one, is a non-empty string and the heading,
  if there is one, has non-empty text.
\<close>

theorem get_show_info_name:
  assumes "fetch rt (''https://www.imdb.com/title/'' @ imdb_id @ ''/'') = Inr soup"
      and "extract_json_ld rt soup = Inr json_ld"
      and "\<not> truthy json_ld \<or> json_ld = JObj kvs"
  shows "\<exists>info. get_show_info rt imdb_id = Inr info
           \<and> name info =
               (case payload_name json_ld of
                  Some v \<Rightarrow>
                    if v = JStr ''Unknown Show''
                    then (case title_heading soup of
                            Some h \<Rightarrow> JStr (el_text_strip h)
                          | None \<Rightarrow> JStr ''Unknown Show'')
                    else v
                | None \<Rightarrow>
                    (case title_heading soup of
                       Some h \<Rightarrow> JStr (el_text_strip h)
                     | None \<Rightarrow> JStr ''Unknown Show''))
           \<and> ((\<forall>v. payload_name json_ld = Some v \<longrightarrow> (\<exists>s. v = JStr s \<and> s \<noteq> []))
                \<and> (\<forall>h. title_heading soup = Some h \<longrightarrow> el_text_strip h \<noteq> [])
               \<longrightarrow> (\<exists>s. name info = JStr s \<and> s \<noteq> []))"
proof (cases "truthy json_ld")
  case True
  with assms(3) have "json_ld = JObj kvs" "kvs \<noteq> []" by auto
  with assms(1,2) show ?thesis
    by (auto simp: get_show_info_def Let_def split: option.splits)
next
  case False
  then have p: "payload_name json_ld = None" by (cases json_ld) auto
  from False assms(1,2) show ?thesis
    by (auto simp: get_show_info_def Let_def p split: option.splits)
qed

theorem get_show_info_name_witness:
  "fetch (example_runtime [(show_url, page_with_script show_text)])
       (''https://www.imdb.com/title/'' @ ''tt0903747'' @ ''/'')
     = Inr (page_with_script show_text)
   \<and> extract_json_ld (example_runtime [(show_url, page_with_script show_text)])
       (page_with_script show_text)
     = Inr (JObj [(''name'', JStr ''Breaking Bad''), (''numberOfSeasons'', JInt 5)])
   \<and> payload_name (JObj [(''name'', JStr ''Breaking Bad''), (''numberOfSeasons'', JInt 5)])
     = Some (JStr ''Breaking Bad'')
   \<and> title_heading (page_with_script show_text) = None
   \<and> (\<exists>info. get_show_info (example_runtime [(show_url, page_with_script show_text)])
                ''tt0903747'' = Inr info
          \<and> name info = JStr ''Breaking Bad''
          \<and> (\<exists>s. name info = JStr s \<and> s \<noteq> []))
   \<and> fetch (example_runtime [(show_url, markup_page)])
       (''https://www.imdb.com/title/'' @ ''tt0903747'' @ ''/'')
     = Inr markup_page
   \<and> extract_json_ld (example_runtime [(show_url, markup_page)]) markup_page = Inr JNull
   \<and> \<not> truthy JNull
   \<and> title_heading markup_page = None
   \<and> (\<exists>info. get_show_info (example_runtime [(show_url, markup_page)]) ''tt0903747''
                = Inr info
          \<and> name info = JStr ''Unknown Show'')"
proof -
  let ?rt = "example_runtime [(show_url, page_with_script show_text)]"
  let ?kvs = "[(''name'', JStr ''Breaking Bad''), (''numberOfSeasons'', JInt 5)]"
  have f: "fetch ?rt (''https://www.imdb.com/title/'' @ ''tt0903747'' @ ''/'')
             = Inr (page_with_script show_text)"
    by (simp add: show_url_def)
  have x: "extract_json_ld ?rt (page_with_script show_text) = Inr (JObj ?kvs)"
    by (rule example_extract(5))
  have p: "payload_name (JObj ?kvs) = Some (JStr ''Breaking Bad'')" by simp
  have h: "title_heading (page_with_script show_text) = None"
    by (simp add: title_heading_def page_with_script_def select_one_def select_def orelse_def)
  have o: "\<not> truthy (JObj ?kvs) \<or> JObj ?kvs = JObj ?kvs" by simp
  from get_show_info_name [OF f x o] obtain info where
    i: "get_show_info ?rt ''tt0903747'' = Inr info"
    and n: "name info =
               (case payload_name (JObj ?kvs) of
                  Some v \<Rightarrow>
                    if v = JStr ''Unknown Show''
                    then (case title_heading (page_with_script show_text) of
                            Some h \<Rightarrow> JStr (el_text_strip h)
                          | None \<Rightarrow> JStr ''Unknown Show'')
                    else v
                | None \<Rightarrow>
                    (case title_heading (page_with_script show_text) of
                       Some h \<Rightarrow> JStr (el_text_strip h)
                     | None \<Rightarrow> JStr ''Unknown Show''))"
    and e: "(\<forall>v. payload_name (JObj ?kvs) = Some v \<longrightarrow> (\<exists>s. v = JStr s \<and> s \<noteq> []))
                \<and> (\<forall>h. title_heading (page_with_script show_text) = Some h
                       \<longrightarrow> el_text_strip h \<noteq> [])
               \<longrightarrow> (\<exists>s. name info = JStr s \<and> s \<noteq> [])"
    by blast
  from n have n': "name info = JStr ''Breaking Bad''" by simp
  from e h have e': "\<exists>s. name info = JStr s \<and> s \<noteq> []" by simp
  let ?rt' = "example_runtime [(show_url, markup_page)]"
  have f': "fetch ?rt' (''https://www.imdb.com/title/'' @ ''tt0903747'' @ ''/'') = Inr markup_page"
    by (simp add: show_url_def)
  have x': "extract_json_ld ?rt' markup_page = Inr JNull"
    by (rule example_extract(6))
  have h': "title_heading markup_page = None"
    by (simp add: title_heading_def markup_page_def select_one_def select_def orelse_def)
  have o': "\<not> truthy JNull \<or> JNull = JObj []" by simp
  from get_show_info_name [OF f' x' o'] obtain info' where
    i': "get_show_info ?rt' ''tt0903747'' = Inr info'"
    and n'': "name info' =
               (case payload_name JNull of
                  Some v \<Rightarrow>
                    if v = JStr ''Unknown Show''
                    then (case title_heading markup_page of
                            Some h \<Rightarrow> JStr (el_text_strip h)
                          | None \<Rightarrow> JStr ''Unknown Show'')
                    else v
                | None \<Rightarrow>
                    (case title_heading markup_page of
                       Some h \<Rightarrow> JStr (el_text_strip h)
                     | None \<Rightarrow> JStr ''Unknown Show''))"
    by blast
  from n'' h' have n3: "name info' = JStr ''Unknown Show''" by simp
  have t: "\<not> truthy JNull" by simp
  from f x p h i n' e' f' x' t h' i' n3 show ?thesis by blast
qed

section \<open>Properties of the Season Enumerator\<close>

text \<open>
  What holds of every list \<open>get_seasons\<close> returns: it is strictly ascending, hence without
  duplicates; and a known count above 0, of a list that can be built, gives the seasons
  from 1 to the count without any fetch.
\<close>

lemma finite_collect_seasons:
  "collect_seasons rt links seasons = Inr result \<Longrightarrow> finite seasons \<Longrightarrow> finite result"
proof (induction links arbitrary: seasons)
  case Nil
  then show ?case by simp
next
  case (Cons link links)
  then show ?case
    by (auto simp: and_then_eq_Inr split: option.splits)
qed

lemma range_1_to_ascending:
  "range_1_to rt v = Inr xs \<Longrightarrow> sorted_wrt (<) xs \<and> (\<forall>x\<in>set xs. 0 < x)"
  by (cases v) (auto simp: list_range_1_def strict_sorted_iff split: if_splits)

lemma seasons_from_links_ascending:
  "seasons_from_links rt soup = Inr xs \<Longrightarrow> sorted_wrt (<) xs \<and> xs \<noteq> []"
  by (auto simp: seasons_from_links_def Let_def and_then_eq_Inr
           dest!: finite_collect_seasons split: if_splits)

lemma get_seasons_ascending:
  "get_seasons rt imdb_id known_season_count = Inr xs \<Longrightarrow> sorted_wrt (<) xs"
  unfolding get_seasons_def
  by (auto simp: and_then_eq_Inr split: if_splits option.splits
           dest: range_1_to_ascending seasons_from_links_ascending)

lemma get_seasons_known_count:
  "0 < n \<Longrightarrow> n \<le> int (maxsize rt) \<Longrightarrow> n \<le> int (max_list_len rt) \<Longrightarrow>
     get_seasons rt imdb_id (JInt n) = Inr [1..n]"
  by (simp add: get_seasons_def list_range_1_def)

text \<open>
  C8 fails on the code. With no known count, a listing page whose structured data is
  \<^verbatim>\<open>{"numberOfSeasons": 0}\<close> makes \<open>get_seasons\<close> return \<^verbatim>\<open>list(range(1, 1))\<close>, the empty
  list: the test \<^verbatim>\<open>> 0\<close> that guards the known count is missing on this path. And a
  listing page without structured data whose only season link has \<^verbatim>\<open>season=0\<close> gives
  \<^verbatim>\<open>[0]\<close>, a list with a number that is not positive.
\<close>

theorem get_seasons_empty_or_zero:
  \<open>get_seasons (example_runtime [(listing_url, page_with_script zero_seasons_text)])
       ''tt0903747'' JNull = Inr []
   \<and> get_seasons (example_runtime [(listing_url, season_zero_page)]) ''tt0903747'' JNull
       = Inr [0]\<close>
proof -
  have \<open>collect_seasons rt (select season_zero_page
           ''a[href*="episodes?season="], a[href*="episodes/?season="]'') {} = Inr {0}\<close> for rt
    by (auto simp: season_zero_page_def select_def match_here_def is_digit_def py_int_str_def
          digits_value_def digit_value_def)
  then show ?thesis
    by (simp add: get_seasons_def listing_url_def example_extract seasons_from_links_def
          list_range_1_def)
       (simp add: season_zero_page_def select_def)
qed

section \<open>Properties of the Episode Extractor\<close>

lemma json_ld_episodes_length:
  "json_ld_episodes rt entries acc = Inr eps \<Longrightarrow> length eps = length acc + length entries"
proof (induction entries arbitrary: acc)
  case Nil
  then show ?case by simp
next
  case (Cons ep_data rest)
  from Cons.prems obtain ep where
    "json_ld_episodes rt rest (acc @ [ep]) = Inr eps"
    by (auto simp: and_then_eq_Inr)
  from Cons.IH[OF this] show ?case by simp
qed

lemma css_episodes_order:
  "css_episodes rt idx items acc = Inr eps \<Longrightarrow>
     length eps = length acc + length items
     \<and> take (length acc) eps = acc
     \<and> (\<forall>i<length items. css_episode rt (idx + i) (items ! i) = Inr (eps ! (length acc + i)))"
proof (induction items arbitrary: idx acc)
  case Nil
  then show ?case by simp
next
  case (Cons item items)
  from Cons.prems obtain ep where ep: "css_episode rt idx item = Inr ep"
    and rest: "css_episodes rt (Suc idx) items (acc @ [ep]) = Inr eps"
    by (auto simp: and_then_eq_Inr)
  from Cons.IH[OF rest] have len: "length eps = length acc + 1 + length items"
    and tk: "take (Suc (length acc)) eps = acc @ [ep]"
    and nth: "\<forall>i<length items. css_episode rt (Suc idx + i) (items ! i)
                 = Inr (eps ! (Suc (length acc) + i))"
    by simp_all
  have tk': "take (length acc) eps = acc"
  proof -
    have "take (length acc) eps = take (length acc) (take (Suc (length acc)) eps)"
      by (simp add: min_def)
    then show ?thesis by (simp add: tk)
  qed
  have at: "eps ! length acc = ep"
  proof -
    have "eps ! length acc = take (Suc (length acc)) eps ! length acc" by simp
    then show ?thesis by (simp add: tk)
  qed
  have "css_episode rt (idx + i) ((item # items) ! i) = Inr (eps ! (length acc + i))"
    if "i < length (item # items)" for i
  proof (cases i)
    case 0
    then show ?thesis using ep at by simp
  next
    case (Suc j)
    with that nth show ?thesis by simp
  qed
  with len tk' show ?case by simp
qed

lemma get_episode_ratings_primary:
  assumes "fetch rt (season_url rt imdb_id season) = Inr soup"
      and "extract_json_ld rt soup = Inr json_ld"
      and "truthy json_ld"
      and "dict_get json_ld ''episode'' (JList []) = Inr (JList entries)"
      and "entries \<noteq> []"
      and "json_ld_episodes rt entries [] = Inr eps"
  shows "get_episode_ratings rt imdb_id season
           = Inr \<lparr>records = sort_key episode_num eps, css_fallback_ran = False\<rparr>"
proof -
  from assms(5) obtain e es where entries: "entries = e # es" by (cases entries) auto
  from json_ld_episodes_length[OF assms(6)] assms(5) have "eps \<noteq> []" by auto
  then show ?thesis
    using assms(1-4,6) unfolding get_episode_ratings_def entries by simp
qed

text \<open>
  C1. For a fetched season document with payload \<open>json_ld\<close>: when the payload is true, its
  \<^verbatim>\<open>episode\<close> value is a non-empty list and the loop over it builds the records \<open>eps\<close>,
  there is one record for each entry, and \<open>get_episode_ratings\<close> returns exactly these
  records, sorted, without reaching the call of the markup fallback. Conversely, when the
  fallback was reached, the result is the fallback's, and the payload was false or its
  \<^verbatim>\<open>episode\<close> value was not a non-empty list: the structured data gave no episode.
\<close>

theorem fallback_tiers_exclusive:
  assumes "fetch rt (season_url rt imdb_id season) = Inr soup"
      and "extract_json_ld rt soup = Inr json_ld"
  shows "(truthy json_ld \<and> dict_get json_ld ''episode'' (JList []) = Inr (JList entries)
            \<and> entries \<noteq> [] \<and> json_ld_episodes rt entries [] = Inr eps
          \<longrightarrow> length eps = length entries
              \<and> get_episode_ratings rt imdb_id season
                  = Inr \<lparr>records = sort_key episode_num eps, css_fallback_ran = False\<rparr>)
       \<and> (get_episode_ratings rt imdb_id season = Inr r \<and> css_fallback_ran r
          \<longrightarrow> get_episode_ratings_css_fallback rt soup = Inr (records r)
              \<and> (\<not> truthy json_ld
                   \<or> (\<exists>v. dict_get json_ld ''episode'' (JList []) = Inr v
                          \<and> (\<forall>e es. v \<noteq> JList (e # es)))))"
proof (intro conjI impI)
  assume a: "truthy json_ld \<and> dict_get json_ld ''episode'' (JList []) = Inr (JList entries)
            \<and> entries \<noteq> [] \<and> json_ld_episodes rt entries [] = Inr eps"
  then show "length eps = length entries"
    using json_ld_episodes_length[of rt entries "[]" eps] by simp
  from a show "get_episode_ratings rt imdb_id season
                  = Inr \<lparr>records = sort_key episode_num eps, css_fallback_ran = False\<rparr>"
    using get_episode_ratings_primary[OF assms] by blast
next
  assume b: "get_episode_ratings rt imdb_id season = Inr r \<and> css_fallback_ran r"
  have fb: "get_episode_ratings_css_fallback rt soup = Inr (records r)"
    if "run_css_fallback rt soup = Inr r"
    using that by (auto simp: run_css_fallback_def and_then_eq_Inr)
  show "get_episode_ratings_css_fallback rt soup = Inr (records r)"
  proof (cases "truthy json_ld")
    case False
    with b assms have "run_css_fallback rt soup = Inr r"
      by (simp add: get_episode_ratings_def)
    then show ?thesis by (rule fb)
  next
    case True
    with b assms obtain v where v: "dict_get json_ld ''episode'' (JList []) = Inr v"
      by (auto simp: get_episode_ratings_def and_then_eq_Inr)
    show ?thesis
    proof (cases "\<exists>e es. v = JList (e # es)")
      case False
      with True b assms v have "run_css_fallback rt soup = Inr r"
        by (auto simp: get_episode_ratings_def split: json.splits list.splits)
      then show ?thesis by (rule fb)
    next
      case e: True
      then obtain e es where ves: "v = JList (e # es)" by blast
      with True b assms v obtain eps where eps: "json_ld_episodes rt (e # es) [] = Inr eps"
        by (auto simp: get_episode_ratings_def and_then_eq_Inr simp del: json_ld_episodes.simps)
      from get_episode_ratings_primary[OF assms True v[unfolded ves] _ eps] b
      show ?thesis by auto
    qed
  qed
  show "\<not> truthy json_ld
          \<or> (\<exists>v. dict_get json_ld ''episode'' (JList []) = Inr v \<and> (\<forall>e es. v \<noteq> JList (e # es)))"
  proof (cases "truthy json_ld")
    case False
    then show ?thesis by simp
  next
    case True
    with b assms obtain v where v: "dict_get json_ld ''episode'' (JList []) = Inr v"
      by (auto simp: get_episode_ratings_def and_then_eq_Inr)
    have "\<forall>e es. v \<noteq> JList (e # es)"
    proof (intro allI notI)
      fix e es assume ves: "v = JList (e # es)"
      with True b assms v obtain eps where eps: "json_ld_episodes rt (e # es) [] = Inr eps"
        by (auto simp: get_episode_ratings_def and_then_eq_Inr simp del: json_ld_episodes.simps)
      from get_episode_ratings_primary[OF assms True v[unfolded ves] _ eps] b
      show False by auto
    qed
    with v show ?thesis by blast
  qed
qed

theorem fallback_tiers_exclusive_witness:
  "fetch (example_runtime [(season1_url, page_with_script episodes_text)])
       (season_url (example_runtime [(season1_url, page_with_script episodes_text)])
          ''tt0903747'' 1) = Inr (page_with_script episodes_text)
   \<and> get_episode_ratings (example_runtime [(season1_url, page_with_script episodes_text)])
         ''tt0903747'' 1
       = Inr \<lparr>records =
                [\<lparr>episode_num = 1, title = JStr ''Pilot'', rating = None\<rparr>,
                 \<lparr>episode_num = 2, title = JStr ''Cat'', rating = Some (Finite (19 / 2))\<rparr>],
              css_fallback_ran = False\<rparr>
   \<and> fetch (example_runtime [(season1_url, markup_page)])
         (season_url (example_runtime [(season1_url, markup_page)]) ''tt0903747'' 1)
       = Inr markup_page
   \<and> extract_json_ld (example_runtime [(season1_url, markup_page)]) markup_page = Inr JNull
   \<and> get_episode_ratings (example_runtime [(season1_url, markup_page)]) ''tt0903747'' 1
       = Inr \<lparr>records =
                [\<lparr>episode_num = 2, title = JStr ''S1.E2 Cat'', rating = Some (Finite (17 / 2))\<rparr>,
                 \<lparr>episode_num = 1, title = JStr ''S1.E1 Pilot'', rating = None\<rparr>],
              css_fallback_ran = True\<rparr>
   \<and> get_episode_ratings_css_fallback (example_runtime [(season1_url, markup_page)]) markup_page
       = Inr [\<lparr>episode_num = 2, title = JStr ''S1.E2 Cat'', rating = Some (Finite (17 / 2))\<rparr>,
              \<lparr>episode_num = 1, title = JStr ''S1.E1 Pilot'', rating = None\<rparr>]"
proof -
  let ?rt = "example_runtime [(season1_url, page_with_script episodes_text)]"
  let ?rt' = "example_runtime [(season1_url, markup_page)]"
  let ?E = "[JObj [(''episodeNumber'', JInt 2), (''name'', JStr ''Cat''),
                   (''aggregateRating'', JObj [(''ratingValue'', JFloat (Finite (19 / 2)))])],
             JObj [(''episodeNumber'', JInt 1), (''name'', JStr ''Pilot''),
                   (''aggregateRating'', JObj [(''ratingValue'', JStr ''n/a'')])]]"
  let ?J = "JObj [(''episode'', JList ?E)]"
  let ?eps = "[\<lparr>episode_num = 2, title = JStr ''Cat'', rating = Some (Finite (19 / 2))\<rparr>,
               \<lparr>episode_num = 1, title = JStr ''Pilot'', rating = None\<rparr>]"
  let ?out = "\<lparr>records =
                [\<lparr>episode_num = 2, title = JStr ''S1.E2 Cat'', rating = Some (Finite (17 / 2))\<rparr>,
                 \<lparr>episode_num = 1, title = JStr ''S1.E1 Pilot'', rating = None\<rparr>],
              css_fallback_ran = True\<rparr>"
  have f: "fetch ?rt (season_url ?rt ''tt0903747'' 1) = Inr (page_with_script episodes_text)"
    by simp
  have x: "extract_json_ld ?rt (page_with_script episodes_text) = Inr ?J"
    by (rule example_extract(1))
  have h1: "truthy ?J" by simp
  have h2: "dict_get ?J ''episode'' (JList []) = Inr (JList ?E)" by simp
  have h3: "?E \<noteq> []" by simp
  have h4: "json_ld_episodes ?rt ?E [] = Inr ?eps" by (rule example_json_ld_episodes)
  from fallback_tiers_exclusive [OF f x, where entries = ?E and eps = ?eps] h1 h2 h3 h4
  have "get_episode_ratings ?rt ''tt0903747'' 1
             = Inr \<lparr>records = sort_key episode_num ?eps, css_fallback_ran = False\<rparr>"
    by blast
  then have p: "get_episode_ratings ?rt ''tt0903747'' 1
       = Inr \<lparr>records =
                [\<lparr>episode_num = 1, title = JStr ''Pilot'', rating = None\<rparr>,
                 \<lparr>episode_num = 2, title = JStr ''Cat'', rating = Some (Finite (19 / 2))\<rparr>],
              css_fallback_ran = False\<rparr>"
    by simp
  have f': "fetch ?rt' (season_url ?rt' ''tt0903747'' 1) = Inr markup_page"
    by simp
  have x': "extract_json_ld ?rt' markup_page = Inr JNull"
    by (rule example_extract(6))
  have g: "get_episode_ratings ?rt' ''tt0903747'' 1 = Inr ?out"
    by (simp add: get_episode_ratings_def x' run_css_fallback_def example_fallback)
  have r: "css_fallback_ran ?out" by simp
  from fallback_tiers_exclusive [OF f' x', where r = ?out] g r
  have "get_episode_ratings_css_fallback ?rt' markup_page = Inr (records ?out)"
    by blast
  then have q: "get_episode_ratings_css_fallback ?rt' markup_page
       = Inr [\<lparr>episode_num = 2, title = JStr ''S1.E2 Cat'', rating = Some (Finite (17 / 2))\<rparr>,
              \<lparr>episode_num = 1, title = JStr ''S1.E1 Pilot'', rating = None\<rparr>]"
    by simp
  from f p f' x' g q show ?thesis by blast
qed

text \<open>
  C6. When the structured-data path builds the records \<open>eps\<close>, the list returned is a
  permutation of \<open>eps\<close> in ascending order of \<open>episode_num\<close>, whatever the order of the
  payload. The list the markup fallback returns has one record for each matched container,
  the record at position \<open>i\<close> being the one of the container at position \<open>i\<close> of the
  document, with the 1-based position as index: the document order is kept.
\<close>

theorem extractor_ordering:
  "(fetch rt (season_url rt imdb_id season) = Inr soup \<and> extract_json_ld rt soup = Inr json_ld
      \<and> truthy json_ld \<and> dict_get json_ld ''episode'' (JList []) = Inr (JList entries)
      \<and> entries \<noteq> [] \<and> json_ld_episodes rt entries [] = Inr eps
    \<longrightarrow> (\<exists>r. get_episode_ratings rt imdb_id season = Inr r
             \<and> sorted (map episode_num (records r)) \<and> mset (records r) = mset eps))
   \<and> (get_episode_ratings_css_fallback rt soup' = Inr eps'
    \<longrightarrow> length eps' = length (episode_items soup')
        \<and> (\<forall>i<length eps'. css_episode rt (Suc i) (episode_items soup' ! i) = Inr (eps' ! i)))"
proof (intro conjI impI)
  assume "fetch rt (season_url rt imdb_id season) = Inr soup \<and> extract_json_ld rt soup = Inr json_ld
      \<and> truthy json_ld \<and> dict_get json_ld ''episode'' (JList []) = Inr (JList entries)
      \<and> entries \<noteq> [] \<and> json_ld_episodes rt entries [] = Inr eps"
  then have "get_episode_ratings rt imdb_id season
               = Inr \<lparr>records = sort_key episode_num eps, css_fallback_ran = False\<rparr>"
    using get_episode_ratings_primary by blast
  then show "\<exists>r. get_episode_ratings rt imdb_id season = Inr r
             \<and> sorted (map episode_num (records r)) \<and> mset (records r) = mset eps"
    by simp
next
  assume "get_episode_ratings_css_fallback rt soup' = Inr eps'"
  then have "css_episodes rt 1 (episode_items soup') [] = Inr eps'"
    by (simp add: get_episode_ratings_css_fallback_def)
  from css_episodes_order[OF this]
  show "length eps' = length (episode_items soup')" 
    and "\<forall>i<length eps'. css_episode rt (Suc i) (episode_items soup' ! i) = Inr (eps' ! i)"
    by simp_all
qed

theorem extractor_ordering_witness:
  "get_episode_ratings (example_runtime [(season1_url, page_with_script episodes_text)])
       ''tt0903747'' 1
     = Inr \<lparr>records =
              [\<lparr>episode_num = 1, title = JStr ''Pilot'', rating = None\<rparr>,
               \<lparr>episode_num = 2, title = JStr ''Cat'', rating = Some (Finite (19 / 2))\<rparr>],
            css_fallback_ran = False\<rparr>
   \<and> json_ld_episodes (example_runtime [(season1_url, page_with_script episodes_text)])
       [JObj [(''episodeNumber'', JInt 2), (''name'', JStr ''Cat''),
              (''aggregateRating'', JObj [(''ratingValue'', JFloat (Finite (19 / 2)))])],
        JObj [(''episodeNumber'', JInt 1), (''name'', JStr ''Pilot''),
              (''aggregateRating'', JObj [(''ratingValue'', JStr ''n/a'')])]] []
     = Inr [\<lparr>episode_num = 2, title = JStr ''Cat'', rating = Some (Finite (19 / 2))\<rparr>,
            \<lparr>episode_num = 1, title = JStr ''Pilot'', rating = None\<rparr>]
   \<and> get_episode_ratings_css_fallback
       (example_runtime [(season1_url, page_with_script episodes_text)]) markup_page
     = Inr [\<lparr>episode_num = 2, title = JStr ''S1.E2 Cat'', rating = Some (Finite (17 / 2))\<rparr>,
            \<lparr>episode_num = 1, title = JStr ''S1.E1 Pilot'', rating = None\<rparr>]
   \<and> css_episode (example_runtime [(season1_url, page_with_script episodes_text)]) 1
       (markup_item ''S1.E2 Cat'' ''8.5/10'')
     = Inr \<lparr>episode_num = 2, title = JStr ''S1.E2 Cat'', rating = Some (Finite (17 / 2))\<rparr>
   \<and> css_episode (example_runtime [(season1_url, page_with_script episodes_text)]) 2
       (markup_item ''S1.E1 Pilot'' ''n/a'')
     = Inr \<lparr>episode_num = 1, title = JStr ''S1.E1 Pilot'', rating = None\<rparr>
   \<and> \<not> sorted [2, 1 :: int]"
proof -
  let ?rt = "example_runtime [(season1_url, page_with_script episodes_text)]"
  let ?E = "[JObj [(''episodeNumber'', JInt 2), (''name'', JStr ''Cat''),
                   (''aggregateRating'', JObj [(''ratingValue'', JFloat (Finite (19 / 2)))])],
             JObj [(''episodeNumber'', JInt 1), (''name'', JStr ''Pilot''),
                   (''aggregateRating'', JObj [(''ratingValue'', JStr ''n/a'')])]]"
  let ?J = "JObj [(''episode'', JList ?E)]"
  let ?eps = "[\<lparr>episode_num = 2, title = JStr ''Cat'', rating = Some (Finite (19 / 2))\<rparr>,
               \<lparr>episode_num = 1, title = JStr ''Pilot'', rating = None\<rparr>]"
  let ?out = "[\<lparr>episode_num = 2, title = JStr ''S1.E2 Cat'', rating = Some (Finite (17 / 2))\<rparr>,
               \<lparr>episode_num = 1, title = JStr ''S1.E1 Pilot'', rating = None\<rparr>]"
  note t = extractor_ordering [where rt = ?rt and imdb_id = "''tt0903747''" and season = 1
      and soup = "page_with_script episodes_text" and json_ld = ?J and entries = ?E
      and eps = ?eps and soup' = markup_page and eps' = ?out]
  have f: "fetch ?rt (season_url ?rt ''tt0903747'' 1) = Inr (page_with_script episodes_text)"
    by simp
  have x: "extract_json_ld ?rt (page_with_script episodes_text) = Inr ?J"
    by (rule example_extract(1))
  have h1: "truthy ?J" by simp
  have h2: "dict_get ?J ''episode'' (JList []) = Inr (JList ?E)" by simp
  have h3: "?E \<noteq> []" by simp
  have e: "json_ld_episodes ?rt ?E [] = Inr ?eps" by (rule example_json_ld_episodes)
  from t f x h1 h2 h3 e obtain r where
    r: "get_episode_ratings ?rt ''tt0903747'' 1 = Inr r" "sorted (map episode_num (records r))"
       "mset (records r) = mset ?eps"
    by blast
  have g: "get_episode_ratings ?rt ''tt0903747'' 1
     = Inr \<lparr>records =
              [\<lparr>episode_num = 1, title = JStr ''Pilot'', rating = None\<rparr>,
               \<lparr>episode_num = 2, title = JStr ''Cat'', rating = Some (Finite (19 / 2))\<rparr>],
            css_fallback_ran = False\<rparr>"
    by (simp add: get_episode_ratings_def x e del: json_ld_episodes.simps)
  have fb: "get_episode_ratings_css_fallback ?rt markup_page = Inr ?out"
    by (rule example_fallback)
  from t fb have
    n: "\<forall>i<length ?out. css_episode ?rt (Suc i) (episode_items markup_page ! i) = Inr (?out ! i)"
    by blast
  have "css_episode ?rt (Suc 0) (episode_items markup_page ! 0) = Inr (?out ! 0)"
    using n by (rule allE [where x = 0]) simp
  moreover have "css_episode ?rt (Suc 1) (episode_items markup_page ! 1) = Inr (?out ! 1)"
    using n by (rule allE [where x = 1]) simp
  ultimately have c: "css_episode ?rt 1 (markup_item ''S1.E2 Cat'' ''8.5/10'')
        = Inr \<lparr>episode_num = 2, title = JStr ''S1.E2 Cat'', rating = Some (Finite (17 / 2))\<rparr>"
    "css_episode ?rt 2 (markup_item ''S1.E1 Pilot'' ''n/a'')
        = Inr \<lparr>episode_num = 1, title = JStr ''S1.E1 Pilot'', rating = None\<rparr>"
    by (simp_all add: example_items numeral_2_eq_2)
  have u: "\<not> sorted [2, 1 :: int]" by simp
  from g e fb c u show ?thesis by blast
qed

text \<open>
  What \<^verbatim>\<open>float\<close> and the \<^verbatim>\<open>try\<close> make of the \<^verbatim>\<open>ratingValue\<close> of an aggregate that is a JSON
  object: every failure becomes an absent rating, except the \<^verbatim>\<open>OverflowError\<close> of an
  integer beyond the range of a double.
\<close>

lemma json_ld_rating_object:
  "json_ld_rating rt (JObj kvs) =
     (case map_of kvs ''ratingValue'' of
        None \<Rightarrow> Inr None
      | Some JNull \<Rightarrow> Inr None
      | Some (JBool b) \<Rightarrow> Inr (Some (Finite (if b then 1 else 0)))
      | Some (JInt i) \<Rightarrow>
          if 2 ^ 1024 - 2 ^ 970 \<le> \<bar>i\<bar> then Inl OverflowError
          else Inr (Some (Finite (of_int (round_to_53_bits i))))
      | Some (JFloat f) \<Rightarrow> Inr (Some f)
      | Some (JStr s) \<Rightarrow> Inr (float_of_str rt s)
      | Some (JList xs) \<Rightarrow> Inr None
      | Some (JObj x) \<Rightarrow> Inr None)"
  by (cases kvs) (auto simp: json_ld_rating_def float_of_int_def split: option.splits json.splits)

text \<open>
  C7 fails on the code. An entry whose \<^verbatim>\<open>ratingValue\<close> is the integer \<open>10 ^ 400\<close>, a JSON
  number that \<^verbatim>\<open>float\<close> cannot convert, makes \<^verbatim>\<open>float\<close> raise \<^verbatim>\<open>OverflowError\<close>, which
  the \<^verbatim>\<open>except (ValueError, TypeError)\<close> clause does not catch: the extraction of the
  season raises instead of recording an absent rating.
\<close>

theorem rating_overflow_propagates:
  "get_episode_ratings (example_runtime [(season1_url, page_with_script huge_rating_text)])
     ''tt0903747'' 1 = Inl OverflowError"
  by (simp add: get_episode_ratings_def example_extract json_ld_episode_def json_ld_rating_def
        float_of_int_def)

section \<open>Properties of the Analytics Engine\<close>

lemma rate_episodes_acc:
  "rate_episodes sn eps all_episodes rs = (all', rs') \<Longrightarrow>
     length all' = length all_episodes + length (filter (\<lambda>e. rating e \<noteq> None) eps)
     \<and> length rs' = length rs + length (filter (\<lambda>e. rating e \<noteq> None) eps)
     \<and> map rated_rating all' = map rated_rating all_episodes @ List.map_filter rating eps"
proof (induction eps arbitrary: all_episodes rs)
  case Nil
  then show ?case by auto
next
  case (Cons ep eps)
  show ?case
  proof (cases "rating ep")
    case None
    with Cons.prems have "rate_episodes sn eps all_episodes rs = (all', rs')" by simp
    from Cons.IH[OF this] None show ?thesis by simp
  next
    case (Some r)
    with Cons.prems have "rate_episodes sn eps
            (all_episodes @ [\<lparr>rated_season = sn, rated_episode_num = episode_num ep,
                              rated_title = title ep, rated_rating = r\<rparr>]) (rs @ [r]) = (all', rs')"
      by simp
    from Cons.IH[OF this] Some show ?thesis by simp
  qed
qed

lemma rate_seasons_acc:
  "rate_seasons rt ss all_episodes averages = (all', averages') \<Longrightarrow>
     \<exists>new. averages' = averages @ new
        \<and> map (\<lambda>a. (sa_season_num a, episode_count a)) new
            = map (\<lambda>s. (season_num s, rated_count s)) (filter (\<lambda>s. 0 < rated_count s) ss)
        \<and> length all' = length all_episodes + sum_list (map rated_count ss)
        \<and> map rated_rating all' = map rated_rating all_episodes @ present_ratings ss"
proof (induction ss arbitrary: all_episodes averages)
  case Nil
  then show ?case by (simp add: present_ratings_def)
next
  case (Cons s ss)
  obtain a1 rs where r: "rate_episodes (season_num s) (episodes s) all_episodes [] = (a1, rs)"
    by (cases "rate_episodes (season_num s) (episodes s) all_episodes []")
  from rate_episodes_acc[OF r] have
    l1: "length a1 = length all_episodes + rated_count s" and
    l2: "length rs = rated_count s" and
    l3: "map rated_rating a1 = map rated_rating all_episodes @ List.map_filter rating (episodes s)"
    by (simp_all add: rated_count_def)
  let ?avgs = "if rs \<noteq> []
             then averages @
                    [\<lparr>sa_season_num = season_num s,
                      average = float_div_int rt (float_sum rt rs) (length rs),
                      episode_count = length rs\<rparr>]
             else averages"
  from Cons.prems r have "rate_seasons rt ss a1 ?avgs = (all', averages')" by simp
  from Cons.IH[OF this] obtain new where new: "averages' = ?avgs @ new"
    "map (\<lambda>a. (sa_season_num a, episode_count a)) new
       = map (\<lambda>s. (season_num s, rated_count s)) (filter (\<lambda>s. 0 < rated_count s) ss)"
    "length all' = length a1 + sum_list (map rated_count ss)"
    "map rated_rating all' = map rated_rating a1 @ present_ratings ss"
    by blast
  show ?case
  proof (cases "rs = []")
    case True
    then have "rated_count s = 0" using l2 by simp
    with True new l1 l3 show ?thesis
      by (intro exI[of _ new]) (simp add: present_ratings_def)
  next
    case False
    then have "0 < rated_count s" using l2 by (cases rs) auto
    with False new l1 l2 l3 show ?thesis
      by (intro exI[of _ "\<lparr>sa_season_num = season_num s,
                      average = float_div_int rt (float_sum rt rs) (length rs),
                      episode_count = length rs\<rparr> # new"])
         (simp add: present_ratings_def)
  qed
qed

lemma sum_list_zero_filter:
  "sum_list (map f xs) = (0::nat) \<Longrightarrow> filter (\<lambda>x. 0 < f x) xs = []"
  by (induction xs) auto

lemma sum_list_filter_pos:
  "sum_list (map f (filter (\<lambda>x. 0 < f x) xs)) = sum_list (map (f :: 'a \<Rightarrow> nat) xs)"
  by (induction xs) auto

text \<open>
  C2. Whenever the summary that \<open>calculate_analytics\<close> computes has \<open>total_episodes = 0\<close>, its
  \<open>min_episode\<close>, \<open>max_episode\<close>, \<open>overall_average\<close>, \<open>best_season\<close> and \<open>worst_season\<close> are
  \<^verbatim>\<open>None\<close> and its \<open>season_averages\<close> is the empty list.
\<close>

theorem no_data_invariant:
  "total_episodes (calculate_analytics rt seasons_data) = 0 \<Longrightarrow>
     min_episode (calculate_analytics rt seasons_data) = None
     \<and> max_episode (calculate_analytics rt seasons_data) = None
     \<and> overall_average (calculate_analytics rt seasons_data) = None
     \<and> best_season (calculate_analytics rt seasons_data) = None
     \<and> worst_season (calculate_analytics rt seasons_data) = None
     \<and> season_averages (calculate_analytics rt seasons_data) = []"
  by (auto simp: calculate_analytics_def split: prod.splits list.splits)

theorem no_data_invariant_witness:
  "total_episodes (calculate_analytics (example_runtime [])
       [\<lparr>season_num = 1, episodes =
           [\<lparr>episode_num = 1, title = JStr ''Pilot'', rating = None\<rparr>]\<rparr>]) = 0
   \<and> overall_average (calculate_analytics (example_runtime [])
       [\<lparr>season_num = 1, episodes =
           [\<lparr>episode_num = 1, title = JStr ''Pilot'', rating = None\<rparr>]\<rparr>]) = None
   \<and> season_averages (calculate_analytics (example_runtime [])
       [\<lparr>season_num = 1, episodes =
           [\<lparr>episode_num = 1, title = JStr ''Pilot'', rating = None\<rparr>]\<rparr>]) = []"
proof -
  let ?sd = "[\<lparr>season_num = 1, episodes =
           [\<lparr>episode_num = 1, title = JStr ''Pilot'', rating = None\<rparr>]\<rparr>]"
  have z: "total_episodes (calculate_analytics (example_runtime []) ?sd) = 0"
    by (simp add: calculate_analytics_def)
  from no_data_invariant [OF z] z show ?thesis by blast
qed

text \<open>
  C10. The \<open>total_episodes\<close> of the summary is the sum of the \<open>episode_count\<close> of the entries
  of its \<open>season_averages\<close>, and these entries are, in the order of the input, one for each
  season that has at least one rated episode, with that season's number and its count of
  rated episodes.
\<close>

theorem totals_consistent:
  "total_episodes (calculate_analytics rt seasons_data)
     = sum_list (map episode_count (season_averages (calculate_analytics rt seasons_data)))
   \<and> map (\<lambda>a. (sa_season_num a, episode_count a))
        (season_averages (calculate_analytics rt seasons_data))
     = map (\<lambda>s. (season_num s, rated_count s))
         (filter (\<lambda>s. 0 < rated_count s) seasons_data)"
proof -
  obtain all' avgs where r: "rate_seasons rt seasons_data [] [] = (all', avgs)"
    by (cases "rate_seasons rt seasons_data [] []")
  from rate_seasons_acc[OF r] have
    m: "map (\<lambda>a. (sa_season_num a, episode_count a)) avgs
          = map (\<lambda>s. (season_num s, rated_count s)) (filter (\<lambda>s. 0 < rated_count s) seasons_data)"
    and l: "length all' = sum_list (map rated_count seasons_data)"
    by auto
  have "map episode_count avgs = map snd (map (\<lambda>a. (sa_season_num a, episode_count a)) avgs)"
    by simp
  also have "\<dots> = map rated_count (filter (\<lambda>s. 0 < rated_count s) seasons_data)"
    by (simp only: m) simp
  finally have c: "sum_list (map episode_count avgs) = length all'"
    by (simp add: l sum_list_filter_pos)
  show ?thesis
  proof (cases all')
    case Nil
    then have "filter (\<lambda>s. 0 < rated_count s) seasons_data = []"
      using l sum_list_zero_filter[of rated_count seasons_data] by simp
    with Nil r show ?thesis by (simp add: calculate_analytics_def)
  next
    case (Cons e es)
    with r m c show ?thesis by (simp add: calculate_analytics_def)
  qed
qed

























section \<open>Properties of the Rating Colorizer\<close>

text \<open>
  C5. \<open>get_rating_color\<close> is a function of its argument alone. An absent rating gets the
  neutral colour. A present, finite rating gets the colour of exactly one of the seven
  buckets \<open><4\<close>, \<open>[4,5)\<close>, \<open>[5,6)\<close>, \<open>[6,7)\<close>, \<open>[7,8)\<close>, \<open>[8,9)\<close>, \<open>\<ge>9\<close>, the seven colours and
  the neutral one being pairwise different; 4.0 is in \<open>[4,5)\<close>. The infinities fall in the
  outermost buckets, and NaN, which is below no threshold, takes the last branch.
\<close>

theorem get_rating_color_buckets:
  "get_rating_color None = ''#3d3d3d''
   \<and> (get_rating_color (Some (Finite r)) = ''#da3633'' \<longleftrightarrow> r < 4)
   \<and> (get_rating_color (Some (Finite r)) = ''#f85149'' \<longleftrightarrow> 4 \<le> r \<and> r < 5)
   \<and> (get_rating_color (Some (Finite r)) = ''#d29922'' \<longleftrightarrow> 5 \<le> r \<and> r < 6)
   \<and> (get_rating_color (Some (Finite r)) = ''#e3b341'' \<longleftrightarrow> 6 \<le> r \<and> r < 7)
   \<and> (get_rating_color (Some (Finite r)) = ''#7ee787'' \<longleftrightarrow> 7 \<le> r \<and> r < 8)
   \<and> (get_rating_color (Some (Finite r)) = ''#3fb950'' \<longleftrightarrow> 8 \<le> r \<and> r < 9)
   \<and> (get_rating_color (Some (Finite r)) = ''#238636'' \<longleftrightarrow> 9 \<le> r)
   \<and> get_rating_color (Some (Finite 4)) = ''#f85149''
   \<and> get_rating_color (Some f) \<in>
       {''#da3633'', ''#f85149'', ''#d29922'', ''#e3b341'', ''#7ee787'', ''#3fb950'', ''#238636''}
   \<and> get_rating_color (Some NInf) = ''#da3633''
   \<and> get_rating_color (Some PInf) = ''#238636''
   \<and> get_rating_color (Some NaN) = ''#238636''"
  by (simp add: get_rating_color_def)

end
